theory Spec2Isabelle
  imports Main "HOL-Library.AList"
begin

section \<open>The document database used by the administrative meeting actions\<close>

text \<open>
  The administrative services (\<open>AdminMeetingClientSimpleService\<close> and
  \<open>AdminMeetingControlService\<close>) read and write three collections of a hosted document
  database: \<open>meetings\<close>, \<open>spaces\<close> and \<open>users\<close>. A collection is an association list
  from document ids to documents. Only the fields the services touch are kept.
  A field the code reads with \<open>x || []\<close> is optional (\<open>None\<close> is \<open>undefined\<close>).
\<close>

type_synonym doc_id = string

text \<open>A string field as JavaScript reads it: missing (\<open>undefined\<close>), \<open>null\<close> or a string. The
  three are told apart by \<open>!==\<close>.\<close>

datatype js_string = Undefined | Null | Str string

text \<open>An entry of a user's \<open>pendingSpaces\<close>: the code reads \<open>p?.spaceId\<close>, which is \<open>undefined\<close> for
  an entry that is null or undefined, and the entry's \<open>spaceId\<close> field otherwise.\<close>

datatype pending_space = NullEntry | PendingSpace js_string

fun opt_spaceId :: "pending_space \<Rightarrow> js_string" where
  "opt_spaceId NullEntry = Undefined"
| "opt_spaceId (PendingSpace s) = s"

record user_doc =
  email :: "string option"
  role :: "string option"
  pendingSpaces :: "pending_space list option"
  hiddenMeetings :: "string list option"
  userLastUpdated :: "nat option"

datatype action_kind = end_meeting | delete_meeting | remove_attendee

text \<open>A time field as the code passes it to the database client: the sentinel
  \<open>serverTimestamp()\<close>, which the server replaces by its time, or a time value.\<close>

datatype time_field = ServerTimestamp | TimeValue nat

record admin_action =
  action :: action_kind
  actMeetingId :: string
  actAdminId :: string
  actAdminName :: string
  actTimestamp :: time_field
  actAffectedUsers :: "string list"
  actReason :: "string option"

record meeting_doc =
  spaceId :: js_string
  attendees :: "string list option"
  creatorId :: string
  status :: string
  endedBy :: "string option"
  endedAt :: "nat option"
  lastUpdated :: "nat option"
  adminActions :: "admin_action list"

record space_doc =
  activeMeeting :: bool
  meetingEndsAt :: "nat option"
  lastActivity :: "nat option"
  spaceEndedBy :: "string option"
  spaceEndedAt :: "nat option"
  members :: "string list"

record database =
  meetings :: "(doc_id \<times> meeting_doc) list"
  spaces :: "(doc_id \<times> space_doc) list"
  users :: "(doc_id \<times> user_doc) list"

text \<open>
  Every call of the database client can be rejected (network, permissions, an invalid
  argument). Which calls are rejected in a run is a parameter \<open>fails\<close> of the services; the
  calls a service makes are recorded, in order, in a trace.
\<close>

datatype db_op =
    GetMeeting doc_id
  | UpdateMeeting doc_id
  | UpdateSpace doc_id
  | GetUser doc_id
  | QueryUserByEmail string
  | UpdateUser doc_id
  | DeleteMeeting doc_id
  | DeleteSpace doc_id

record admin_response =
  success :: bool
  message :: string
  affectedUsers :: "string list option"

record admin_result =
  response :: admin_response
  db_after :: database
  trace :: "db_op list"

text \<open>JavaScript truthiness of such a field: \<open>undefined\<close>, \<open>null\<close> and \<open>''\<close> are falsy.\<close>

fun truthy :: "js_string \<Rightarrow> bool" where
  "truthy (Str v) = (v \<noteq> [])"
| "truthy s = False"

text \<open>The string of a field that holds one.\<close>

fun str_of :: "js_string \<Rightarrow> string" where
  "str_of (Str v) = v"
| "str_of s = []"

text \<open>\<open>x || []\<close> on an optional array.\<close>

definition or_empty :: "'a list option \<Rightarrow> 'a list" where
  "or_empty xs = (case xs of None \<Rightarrow> [] | Some v \<Rightarrow> v)"

text \<open>\<open>[...new Set(xs)]\<close>: a JavaScript \<open>Set\<close> keeps the first occurrence of each element, in
  insertion order.\<close>

fun set_insert_all :: "'a list \<Rightarrow> 'a list \<Rightarrow> 'a list" where
  "set_insert_all seen [] = seen"
| "set_insert_all seen (x # xs) =
     set_insert_all (if x \<in> set seen then seen else seen @ [x]) xs"

definition uniqueUserIds :: "string list \<Rightarrow> string \<Rightarrow> string list" where
  "uniqueUserIds atts creator = set_insert_all [] (atts @ [creator])"

text \<open>\<open>arrayUnion(x)\<close>: append \<open>x\<close> unless an equal element is present.\<close>

definition arrayUnion :: "'a list \<Rightarrow> 'a \<Rightarrow> 'a list" where
  "arrayUnion xs x = (if x \<in> set xs then xs else xs @ [x])"

text \<open>
  The database client validates the data of \<open>updateDoc\<close> before anything is sent. A
  \<open>serverTimestamp()\<close> sentinel is accepted as the value of a field of the update, and
  refused inside an element given to \<open>arrayUnion()\<close>: the call then throws and the document
  is not changed.
\<close>

definition arrayUnion_refused :: "admin_action \<Rightarrow> bool" where
  "arrayUnion_refused x = (actTimestamp x = ServerTimestamp)"

text \<open>Decimal rendering of \<open>affectedUsers.length\<close> inside the message template.\<close>

definition digit_char :: "nat \<Rightarrow> char" where
  "digit_char d = char_of (48 + d)"

fun string_of_nat :: "nat \<Rightarrow> string" where
  "string_of_nat n =
     (if n < 10 then [digit_char n] else string_of_nat (n div 10) @ [digit_char (n mod 10)])"

declare string_of_nat.simps [simp del]

text \<open>The dashboard-removal update of one user record: filter \<open>pendingSpaces\<close>, append the
  space to \<open>hiddenMeetings\<close> when the meeting has one.\<close>

definition dashboardRemoval :: "nat \<Rightarrow> js_string \<Rightarrow> user_doc \<Rightarrow> user_doc" where
  "dashboardRemoval now sid userData =
     (let currentPendingSpaces = or_empty (pendingSpaces userData);
          updatedPendingSpaces = filter (\<lambda>p. opt_spaceId p \<noteq> sid) currentPendingSpaces;
          currentHiddenMeetings = or_empty (hiddenMeetings userData);
          updatedHiddenMeetings =
            (if truthy sid then currentHiddenMeetings @ [str_of sid] else currentHiddenMeetings)
      in userData\<lparr>pendingSpaces := Some updatedPendingSpaces,
                  hiddenMeetings := Some updatedHiddenMeetings,
                  userLastUpdated := Some now\<rparr>)"

text \<open>
  The loop \<open>for (const userId of uniqueUserIds) { try { ... } catch { log } }\<close> of
  \<open>endMeetingForAllUsers\<close> and \<open>deleteMeetingCompletely\<close> (the same text in both services).
  The state carried through the loop is the database, the list \<open>affectedUsers\<close> and the
  trace. A rejected read or update is caught: the loop goes on with the next id.
\<close>

fun removeFromDashboards ::
  "(db_op \<Rightarrow> bool) \<Rightarrow> nat \<Rightarrow> js_string \<Rightarrow> string list \<Rightarrow>
   database \<times> string list \<times> db_op list \<Rightarrow> database \<times> string list \<times> db_op list" where
  "removeFromDashboards fails now sid [] st = st"
| "removeFromDashboards fails now sid (userId # rest) (db, affected, tr) =
     (if fails (GetUser userId)
      then removeFromDashboards fails now sid rest (db, affected, tr @ [GetUser userId])
      else case map_of (users db) userId of
        None \<Rightarrow> removeFromDashboards fails now sid rest (db, affected, tr @ [GetUser userId])
      | Some userData \<Rightarrow>
          (if fails (UpdateUser userId)
           then removeFromDashboards fails now sid rest
                  (db, affected, tr @ [GetUser userId, UpdateUser userId])
           else removeFromDashboards fails now sid rest
                  (db\<lparr>users := AList.update userId (dashboardRemoval now sid userData) (users db)\<rparr>,
                   affected @ [userId],
                   tr @ [GetUser userId, UpdateUser userId])))"

definition failure :: "string \<Rightarrow> string list option \<Rightarrow> admin_response" where
  "failure msg aff = \<lparr>success = False, message = msg, affectedUsers = aff\<rparr>"

text \<open>\<open>endMeetingForAllUsers\<close>. The update of the meeting passes the audit entry, with
  \<open>timestamp: serverTimestamp()\<close>, inside \<open>arrayUnion()\<close>. \<open>updateDoc\<close> on a document that does not
  exist is rejected by the database; every rejection outside the per-user loop reaches the
  outer \<open>catch\<close>.\<close>

definition endMeetingForAllUsers ::
  "(db_op \<Rightarrow> bool) \<Rightarrow> nat \<Rightarrow> database \<Rightarrow> string \<Rightarrow> string \<Rightarrow> string \<Rightarrow> string option
   \<Rightarrow> admin_result" where
  "endMeetingForAllUsers fails now db meetingId adminId adminName reason =
     (if fails (GetMeeting meetingId)
      then \<lparr>response = failure ''Failed to end meeting'' (Some []), db_after = db,
            trace = [GetMeeting meetingId]\<rparr>
      else case map_of (meetings db) meetingId of
        None \<Rightarrow> \<lparr>response = failure ''Meeting not found'' (Some []), db_after = db,
                  trace = [GetMeeting meetingId]\<rparr>
      | Some meetingData \<Rightarrow>
          (let sid = spaceId meetingData;
               atts = or_empty (attendees meetingData);
               creator = creatorId meetingData;
               entry = \<lparr>action = end_meeting, actMeetingId = meetingId,
                         actAdminId = adminId, actAdminName = adminName,
                         actTimestamp = ServerTimestamp, actAffectedUsers = atts,
                         actReason = reason\<rparr>;
               tr1 = [GetMeeting meetingId, UpdateMeeting meetingId]
           in if arrayUnion_refused entry \<or> fails (UpdateMeeting meetingId)
              then \<lparr>response = failure ''Failed to end meeting'' (Some []), db_after = db,
                    trace = tr1\<rparr>
              else
                (let db1 = db\<lparr>meetings := AList.update meetingId
                       (meetingData\<lparr>status := ''ended'', endedBy := Some adminId,
                          endedAt := Some now, lastUpdated := Some now,
                          adminActions := arrayUnion (adminActions meetingData) entry\<rparr>)
                       (meetings db)\<rparr>;
                     loop = (\<lambda>db2 tr2.
                       (let (db3, affected, tr3) =
                              removeFromDashboards fails now sid (uniqueUserIds atts creator)
                                (db2, [], tr2)
                        in \<lparr>response = \<lparr>success = True,
                               message = ''Meeting ended successfully. Removed from '' @
                                 string_of_nat (length affected) @ '' users' dashboards.'',
                               affectedUsers = Some affected\<rparr>,
                             db_after = db3, trace = tr3\<rparr>))
                 in if truthy sid
                    then (case map_of (spaces db1) (str_of sid) of
                            None \<Rightarrow> \<lparr>response = failure ''Failed to end meeting'' (Some []),
                                      db_after = db1, trace = tr1 @ [UpdateSpace (str_of sid)]\<rparr>
                          | Some sp \<Rightarrow>
                              if fails (UpdateSpace (str_of sid))
                              then \<lparr>response = failure ''Failed to end meeting'' (Some []),
                                    db_after = db1, trace = tr1 @ [UpdateSpace (str_of sid)]\<rparr>
                              else loop
                                (db1\<lparr>spaces := AList.update (str_of sid)
                                   (sp\<lparr>activeMeeting := False, meetingEndsAt := None,
                                       lastActivity := Some now, spaceEndedBy := Some adminId,
                                       spaceEndedAt := Some now, members := []\<rparr>)
                                   (spaces db1)\<rparr>)
                                (tr1 @ [UpdateSpace (str_of sid)]))
                    else loop db1 tr1)))"

text \<open>\<open>deleteMeetingCompletely\<close>: the per-user loop first, then \<open>deleteDoc\<close> of the meeting and,
  when \<open>spaceId\<close> is truthy, of the space. \<open>deleteDoc\<close> of an absent document is not an error.\<close>

definition deleteMeetingCompletely ::
  "(db_op \<Rightarrow> bool) \<Rightarrow> nat \<Rightarrow> database \<Rightarrow> string \<Rightarrow> string \<Rightarrow> string \<Rightarrow> string option
   \<Rightarrow> admin_result" where
  "deleteMeetingCompletely fails now db meetingId adminId adminName reason =
     (if fails (GetMeeting meetingId)
      then \<lparr>response = failure ''Failed to delete meeting'' (Some []), db_after = db,
            trace = [GetMeeting meetingId]\<rparr>
      else case map_of (meetings db) meetingId of
        None \<Rightarrow> \<lparr>response = failure ''Meeting not found'' (Some []), db_after = db,
                  trace = [GetMeeting meetingId]\<rparr>
      | Some meetingData \<Rightarrow>
          (let sid = spaceId meetingData;
               atts = or_empty (attendees meetingData);
               creator = creatorId meetingData;
               (db1, affected, tr1) =
                 removeFromDashboards fails now sid (uniqueUserIds atts creator)
                   (db, [], [GetMeeting meetingId]);
               tr2 = tr1 @ [DeleteMeeting meetingId]
           in if fails (DeleteMeeting meetingId)
              then \<lparr>response = failure ''Failed to delete meeting'' (Some []), db_after = db1,
                    trace = tr2\<rparr>
              else
                (let db2 = db1\<lparr>meetings := AList.delete meetingId (meetings db1)\<rparr>;
                     ok = \<lparr>success = True,
                           message = ''Meeting deleted completely. Removed from '' @
                             string_of_nat (length affected) @ '' users' dashboards.'',
                           affectedUsers = Some affected\<rparr>
                 in if truthy sid
                    then (if fails (DeleteSpace (str_of sid))
                          then \<lparr>response = failure ''Failed to delete meeting'' (Some []),
                                db_after = db2, trace = tr2 @ [DeleteSpace (str_of sid)]\<rparr>
                          else \<lparr>response = ok,
                                db_after = db2\<lparr>spaces := AList.delete (str_of sid) (spaces db2)\<rparr>,
                                trace = tr2 @ [DeleteSpace (str_of sid)]\<rparr>)
                    else \<lparr>response = ok, db_after = db2, trace = tr2\<rparr>)))"

text \<open>
  \<open>removeAttendeeFromMeeting\<close>. The two services differ in how the user record is found:
  \<open>AdminMeetingControlService\<close> reads the user document whose id is the attendee identifier,
  \<open>AdminMeetingClientSimpleService\<close> queries the users whose \<open>email\<close> field equals it and takes
  the first document of the result. \<open>find_user\<close> is that difference; the rest is one text.
  Here too the update of the meeting passes the audit entry, with
  \<open>timestamp: serverTimestamp()\<close>, inside \<open>arrayUnion()\<close>.
\<close>

datatype service = ControlService | ClientSimpleService

definition find_user_op :: "service \<Rightarrow> string \<Rightarrow> db_op" where
  "find_user_op svc attendee =
     (case svc of ControlService \<Rightarrow> GetUser attendee
                | ClientSimpleService \<Rightarrow> QueryUserByEmail attendee)"

definition find_user :: "service \<Rightarrow> database \<Rightarrow> string \<Rightarrow> (doc_id \<times> user_doc) option" where
  "find_user svc db attendee =
     (case svc of
        ControlService \<Rightarrow>
          (case map_of (users db) attendee of None \<Rightarrow> None | Some u \<Rightarrow> Some (attendee, u))
      | ClientSimpleService \<Rightarrow>
          (case filter (\<lambda>(uid, u). email u = Some attendee) (users db) of
             [] \<Rightarrow> None
           | d # _ \<Rightarrow> Some d))"

definition removeAttendeeFromMeeting ::
  "service \<Rightarrow> (db_op \<Rightarrow> bool) \<Rightarrow> nat \<Rightarrow> database \<Rightarrow> string \<Rightarrow> string \<Rightarrow> string \<Rightarrow> string
   \<Rightarrow> string option \<Rightarrow> admin_result" where
  "removeAttendeeFromMeeting svc fails now db meetingId attendee adminId adminName reason =
     (let failed = failure ''Failed to remove attendee from meeting'' None
      in if fails (GetMeeting meetingId)
      then \<lparr>response = failed, db_after = db, trace = [GetMeeting meetingId]\<rparr>
      else case map_of (meetings db) meetingId of
        None \<Rightarrow> \<lparr>response = failure ''Meeting not found'' None, db_after = db,
                  trace = [GetMeeting meetingId]\<rparr>
      | Some meetingData \<Rightarrow>
          (let sid = spaceId meetingData;
               atts = or_empty (attendees meetingData);
               updatedAttendees = filter (\<lambda>e. e \<noteq> attendee) atts;
               entry = \<lparr>action = remove_attendee, actMeetingId = meetingId,
                         actAdminId = adminId, actAdminName = adminName,
                         actTimestamp = ServerTimestamp, actAffectedUsers = [attendee],
                         actReason = reason\<rparr>;
               tr1 = [GetMeeting meetingId, UpdateMeeting meetingId]
           in if arrayUnion_refused entry \<or> fails (UpdateMeeting meetingId)
              then \<lparr>response = failed, db_after = db, trace = tr1\<rparr>
              else
                (let db1 = db\<lparr>meetings := AList.update meetingId
                       (meetingData\<lparr>attendees := Some updatedAttendees,
                          lastUpdated := Some now,
                          adminActions := arrayUnion (adminActions meetingData) entry\<rparr>)
                       (meetings db)\<rparr>;
                     tr2 = tr1 @ [find_user_op svc attendee];
                     ok = \<lparr>success = True,
                           message = ''Attendee removed from meeting successfully.'',
                           affectedUsers = None\<rparr>
                 in if fails (find_user_op svc attendee)
                    then \<lparr>response = failed, db_after = db1, trace = tr2\<rparr>
                    else case find_user svc db1 attendee of
                      None \<Rightarrow> \<lparr>response = ok, db_after = db1, trace = tr2\<rparr>
                    | Some (uid, userData) \<Rightarrow>
                        if fails (UpdateUser uid)
                        then \<lparr>response = failed, db_after = db1,
                              trace = tr2 @ [UpdateUser uid]\<rparr>
                        else \<lparr>response = ok,
                              db_after = db1\<lparr>users := AList.update uid
                                (dashboardRemoval now sid userData) (users db1)\<rparr>,
                              trace = tr2 @ [UpdateUser uid]\<rparr>)))"

text \<open>Whether the per-user step of the loop reaches its \<open>updateDoc\<close> for user \<open>u\<close>: the read is
  not rejected and the user record exists.\<close>

definition updatable :: "(db_op \<Rightarrow> bool) \<Rightarrow> database \<Rightarrow> string \<Rightarrow> bool" where
  "updatable fails db u = (\<not> fails (GetUser u) \<and> map_of (users db) u \<noteq> None)"

text \<open>User \<open>u\<close> has a record whose \<open>hiddenMeetings\<close> contains \<open>s\<close>.\<close>

definition marked :: "string \<Rightarrow> database \<Rightarrow> string \<Rightarrow> bool" where
  "marked s db u = (case map_of (users db) u of None \<Rightarrow> False
                     | Some ud \<Rightarrow> s \<in> set (or_empty (hiddenMeetings ud)))"

subsection \<open>A small database for concrete runs\<close>

definition ex_creator :: user_doc where
  "ex_creator = \<lparr>email = Some ''carol@example.org'', role = Some ''admin'',
     pendingSpaces = Some [PendingSpace (Str ''s1''), NullEntry, PendingSpace (Str ''s2'')],
     hiddenMeetings = None, userLastUpdated = None\<rparr>"

definition ex_attendee :: user_doc where
  "ex_attendee = \<lparr>email = Some ''uma@example.org'', role = None,
     pendingSpaces = Some [PendingSpace (Str ''s1'')],
     hiddenMeetings = Some [''s0''], userLastUpdated = None\<rparr>"

definition ex_meeting :: meeting_doc where
  "ex_meeting = \<lparr>spaceId = Str ''s1'', attendees = Some [''u1'', ''ghost'', ''u1''],
     creatorId = ''c1'', status = ''active'', endedBy = None, endedAt = None,
     lastUpdated = None, adminActions = []\<rparr>"

definition ex_space :: space_doc where
  "ex_space = \<lparr>activeMeeting = True, meetingEndsAt = Some 9, lastActivity = None,
     spaceEndedBy = None, spaceEndedAt = None, members = [''c1'', ''u1'']\<rparr>"

definition ex_db :: database where
  "ex_db = \<lparr>meetings = [(''m1'', ex_meeting)], spaces = [(''s1'', ex_space)],
     users = [(''c1'', ex_creator), (''u1'', ex_attendee)]\<rparr>"

definition no_failures :: "db_op \<Rightarrow> bool" where
  "no_failures x = False"

definition fail_update_u1 :: "db_op \<Rightarrow> bool" where
  "fail_update_u1 x = (x = UpdateUser ''u1'')"

section \<open>The mesh room manager (\<open>WebRTCMeshManager\<close>, src/lib/webrtc-mesh.ts)\<close>

text \<open>
  The manager owns two JavaScript \<open>Map\<close>s keyed by participant id. A \<open>Map\<close> keeps insertion
  order, \<open>set\<close> on a present key replaces the value in place and \<open>delete\<close> removes the entry:
  an association list with \<open>AList.update\<close>, \<open>AList.delete\<close> and \<open>map_of\<close>.

  The browser objects a connection entry refers to (\<open>RTCPeerConnection\<close>, \<open>MediaStream\<close>)
  live in a store indexed by reference numbers, since event handlers keep a peer connection
  reachable after its map entry is gone. One call of \<open>handleParticipantJoined\<close> creates one
  peer connection and one remote stream; both get the same fresh reference number.

  An \<open>async\<close> method runs until its first \<open>await\<close>; what follows the \<open>await\<close> runs when the
  awaited operation settles, and other handlers run in between. A method suspended at an
  \<open>await\<close> is kept as a task; the event \<open>Settled i\<close> resumes the task at position \<open>i\<close>, which runs
  to its next \<open>await\<close>. Where nothing follows an \<open>await\<close> but the end of the method (the
  candidate write, \<open>addIceCandidate\<close>) the call is made and no task is kept.
  \<open>handleParticipantLeft\<close> has no \<open>await\<close>. Left out: the tracks of the local stream added
  to a new peer connection, and \<open>handleOffer\<close>, a private method that nothing calls.
\<close>

record session_description =
  sd_type :: string
  sd_sdp :: string

type_synonym ice_candidate = string
type_synonym media_track = string

text \<open>The part of the browser's peer connection the manager relies on: \<open>close\<close>, the
  offer/answer signaling state, the remote description and the candidates added.
  \<open>pcOwner\<close> is the \<open>participantId\<close> captured by the event handlers installed on it.\<close>

datatype signaling_state = Stable | HaveLocalOffer

record peer_connection =
  pcOwner :: string
  pcClosed :: bool
  signalingState :: signaling_state
  localDescription :: "session_description option"
  currentRemoteDescription :: "session_description option"
  addedCandidates :: "ice_candidate list"
  connectionState :: string

datatype dom_exception = InvalidStateError

definition new_RTCPeerConnection :: "string \<Rightarrow> peer_connection" where
  "new_RTCPeerConnection owner =
     \<lparr>pcOwner = owner, pcClosed = False, signalingState = Stable, localDescription = None,
      currentRemoteDescription = None, addedCandidates = [], connectionState = ''new''\<rparr>"

definition pc_close :: "peer_connection \<Rightarrow> peer_connection" where
  "pc_close pc = pc\<lparr>pcClosed := True, connectionState := ''closed''\<rparr>"

text \<open>The text the browser generates for an offer is opaque to the manager.\<close>

definition browser_offer :: session_description where
  "browser_offer = \<lparr>sd_type = ''offer'', sd_sdp = ''v=0''\<rparr>"

definition pc_createOffer :: "peer_connection \<Rightarrow> dom_exception + session_description" where
  "pc_createOffer pc = (if pcClosed pc then Inl InvalidStateError else Inr browser_offer)"

definition pc_setLocalDescription ::
  "session_description \<Rightarrow> peer_connection \<Rightarrow> dom_exception + peer_connection" where
  "pc_setLocalDescription d pc =
     (if pcClosed pc then Inl InvalidStateError
      else Inr (pc\<lparr>localDescription := Some d, signalingState := HaveLocalOffer\<rparr>))"

text \<open>Applying a remote answer is accepted only while a local offer is pending.\<close>

definition pc_setRemoteDescription ::
  "session_description \<Rightarrow> peer_connection \<Rightarrow> dom_exception + peer_connection" where
  "pc_setRemoteDescription d pc =
     (if pcClosed pc \<or> signalingState pc \<noteq> HaveLocalOffer then Inl InvalidStateError
      else Inr (pc\<lparr>currentRemoteDescription := Some d, signalingState := Stable\<rparr>))"

definition pc_addIceCandidate ::
  "ice_candidate \<Rightarrow> peer_connection \<Rightarrow> dom_exception + peer_connection" where
  "pc_addIceCandidate c pc =
     (if pcClosed pc \<or> currentRemoteDescription pc = None then Inl InvalidStateError
      else Inr (pc\<lparr>addedCandidates := addedCandidates pc @ [c]\<rparr>))"

text \<open>\<open>interface ParticipantConnection\<close>; \<open>localStream\<close> is the manager's one shared stream and
  is not repeated per entry.\<close>

record participant_connection =
  participantId :: string
  peerConnection :: nat
  remoteStream :: nat
  isConnected :: bool
  isInitiator :: bool

text \<open>Records of the room's signaling collections.\<close>

record answer_record =
  ans_from :: string
  ans_to :: string
  ans_answer :: session_description
  ans_createdAt :: nat

record candidate_record =
  cand_from :: string
  cand_to :: string
  cand_candidate :: ice_candidate
  cand_createdAt :: nat

text \<open>What the manager writes to the database, in order.\<close>

datatype signaling_write =
    WroteParticipant string bool
  | WroteOffer string string session_description
  | WroteCandidate string string ice_candidate

text \<open>Calls the manager makes on peer connections, in order (attempts, accepted or not).\<close>

datatype pc_call =
    CallCreateOffer nat
  | CallSetLocalDescription nat
  | CallSetRemoteDescription nat session_description
  | CallAddIceCandidate nat ice_candidate
  | CallClose nat

text \<open>The active \<open>onSnapshot\<close> subscriptions of the manager.\<close>

datatype watcher = ParticipantsWatcher | AnswerWatcher string | CandidateWatcher string

text \<open>
  The suspended methods, each with the local variables its continuation uses:
  \<open>createOffer\<close> at \<open>await peerConnection.createOffer()\<close>, at
  \<open>await peerConnection.setLocalDescription(offer)\<close> and at \<open>await updateDoc(offerRef, ..)\<close>,
  and the answer callback at \<open>await peerConnection.setRemoteDescription(..)\<close>. The
  continuations of \<open>createOffer\<close> use the connection object read before the first \<open>await\<close>,
  not the map.
\<close>

datatype task =
    AwaitCreateOffer string nat session_description
  | AwaitSetLocalDescription string nat session_description
  | AwaitOfferWrite string session_description
  | AwaitSetRemoteDescription string nat session_description

record mesh_manager =
  currentUserId :: string
  connections :: "(string \<times> participant_connection) list"
  participants :: "(string \<times> string) list"
  pcs :: "nat \<Rightarrow> peer_connection"
  streams :: "nat \<Rightarrow> media_track list"
  next_ref :: nat
  watchers :: "watcher list"
  unsubscribe :: "watcher option"
  written :: "signaling_write list"
  calls :: "pc_call list"
  suspended :: "task list"

definition new_WebRTCMeshManager :: "string \<Rightarrow> mesh_manager" where
  "new_WebRTCMeshManager uid =
     \<lparr>currentUserId = uid, connections = [], participants = [],
      pcs = (\<lambda>r. new_RTCPeerConnection []), streams = (\<lambda>r. []), next_ref = 0,
      watchers = [], unsubscribe = None, written = [], calls = [], suspended = []\<rparr>"

definition listenForAnswer :: "string \<Rightarrow> mesh_manager \<Rightarrow> mesh_manager" where
  "listenForAnswer pid s = s\<lparr>watchers := watchers s @ [AnswerWatcher pid]\<rparr>"

text \<open>\<open>createOffer\<close>, to its first \<open>await\<close>: the connection is read from the map and
  \<open>peerConnection.createOffer()\<close> is called. The browser refuses the call on a closed
  connection (the rejection is caught and logged); otherwise the call will settle with the
  offer.\<close>

definition createOffer :: "string \<Rightarrow> mesh_manager \<Rightarrow> mesh_manager" where
  "createOffer pid s =
     (case map_of (connections s) pid of
        None \<Rightarrow> s
      | Some connection \<Rightarrow>
          (let r = peerConnection connection;
               s1 = s\<lparr>calls := calls s @ [CallCreateOffer r]\<rparr>
           in case pc_createOffer (pcs s1 r) of
                Inl e \<Rightarrow> s1
              | Inr offer \<Rightarrow>
                  s1\<lparr>suspended := suspended s1 @ [AwaitCreateOffer pid r offer]\<rparr>))"

definition handleParticipantJoined :: "string \<Rightarrow> string \<Rightarrow> mesh_manager \<Rightarrow> mesh_manager" where
  "handleParticipantJoined pid participantData s =
     (let r = next_ref s;
          s1 = s\<lparr>pcs := (pcs s)(r := new_RTCPeerConnection pid),
                 streams := (streams s)(r := []),
                 next_ref := Suc r\<rparr>;
          s2 = s1\<lparr>connections := AList.update pid
                    \<lparr>participantId = pid, peerConnection = r, remoteStream = r,
                     isConnected = False, isInitiator = True\<rparr> (connections s1)\<rparr>;
          s3 = s2\<lparr>participants := AList.update pid participantData (participants s2)\<rparr>
      in createOffer pid s3)"

definition handleParticipantLeft :: "string \<Rightarrow> mesh_manager \<Rightarrow> mesh_manager" where
  "handleParticipantLeft pid s =
     (let s1 = (case map_of (connections s) pid of
                  None \<Rightarrow> s
                | Some connection \<Rightarrow>
                    s\<lparr>pcs := (pcs s)(peerConnection connection :=
                                      pc_close (pcs s (peerConnection connection))),
                      calls := calls s @ [CallClose (peerConnection connection)],
                      connections := AList.delete pid (connections s)\<rparr>)
      in s1\<lparr>participants := AList.delete pid (participants s1)\<rparr>)"

definition sendIceCandidate :: "string \<Rightarrow> ice_candidate \<Rightarrow> mesh_manager \<Rightarrow> mesh_manager" where
  "sendIceCandidate pid c s =
     s\<lparr>written := written s @ [WroteCandidate (currentUserId s) pid c]\<rparr>"

definition listenForIceCandidates :: "string \<Rightarrow> mesh_manager \<Rightarrow> mesh_manager" where
  "listenForIceCandidates pid s = s\<lparr>watchers := watchers s @ [CandidateWatcher pid]\<rparr>"

text \<open>The query of \<open>listenForAnswer\<close>: \<open>from == participantId\<close>, \<open>to == currentUserId\<close>, newest
  first.\<close>

definition answerQuery :: "string \<Rightarrow> string \<Rightarrow> answer_record list \<Rightarrow> answer_record list" where
  "answerQuery me pid coll =
     rev (sort_key ans_createdAt (filter (\<lambda>a. ans_from a = pid \<and> ans_to a = me) coll))"

text \<open>The snapshot callback of \<open>listenForAnswer\<close>, to its \<open>await\<close>: the guard is read and
  \<open>setRemoteDescription\<close> is called.\<close>

definition onAnswerSnapshot :: "string \<Rightarrow> answer_record list \<Rightarrow> mesh_manager \<Rightarrow> mesh_manager" where
  "onAnswerSnapshot pid docs s =
     (case docs of
        [] \<Rightarrow> s
      | answerData # _ \<Rightarrow>
          (case map_of (connections s) pid of
             None \<Rightarrow> s
           | Some connection \<Rightarrow>
               (let r = peerConnection connection
                in if currentRemoteDescription (pcs s r) = None
                   then s\<lparr>calls := calls s @
                            [CallSetRemoteDescription r (ans_answer answerData)],
                          suspended := suspended s @
                            [AwaitSetRemoteDescription pid r (ans_answer answerData)]\<rparr>
                   else s)))"

text \<open>
  What runs when the awaited operation of a task settles. When \<open>createOffer()\<close> settles,
  \<open>setLocalDescription\<close> is called with the offer. \<open>setLocalDescription\<close> and
  \<open>setRemoteDescription\<close> are refused when they run on a closed connection or in the wrong
  signaling state; a rejected operation is caught and logged, and the method ends. In \<open>createOffer\<close> the offer is written by
  \<open>updateDoc(offerRef, ..).catch(() => addDoc(..))\<close>: nothing creates the document
  \<open>offers/<currentUserId>_<participantId>\<close> (\<open>addDoc\<close> generates an id), so \<open>updateDoc\<close> is
  rejected and the offer is written by the fallback when the rejection arrives; then
  \<open>listenForAnswer\<close> is called. In the answer callback an accepted \<open>setRemoteDescription\<close> is
  followed by \<open>unsubscribe()\<close>, which ends that subscription.
\<close>

fun resume :: "task \<Rightarrow> mesh_manager \<Rightarrow> mesh_manager" where
  "resume (AwaitCreateOffer pid r offer) s =
     s\<lparr>calls := calls s @ [CallSetLocalDescription r],
       suspended := suspended s @ [AwaitSetLocalDescription pid r offer]\<rparr>"
| "resume (AwaitSetLocalDescription pid r offer) s =
     (case pc_setLocalDescription offer (pcs s r) of
        Inl e \<Rightarrow> s
      | Inr pc' \<Rightarrow>
          s\<lparr>pcs := (pcs s)(r := pc'),
            suspended := suspended s @ [AwaitOfferWrite pid offer]\<rparr>)"
| "resume (AwaitOfferWrite pid offer) s =
     listenForAnswer pid
       (s\<lparr>written := written s @ [WroteOffer (currentUserId s) pid offer]\<rparr>)"
| "resume (AwaitSetRemoteDescription pid r answer) s =
     (case pc_setRemoteDescription answer (pcs s r) of
        Inl e \<Rightarrow> s
      | Inr pc' \<Rightarrow>
          s\<lparr>pcs := (pcs s)(r := pc'),
            watchers := remove1 (AnswerWatcher pid) (watchers s)\<rparr>)"

datatype change_type = added | modified | removed

text \<open>The snapshot callback of \<open>listenForIceCandidates\<close>, for one document change.\<close>

definition onCandidateChange ::
  "string \<Rightarrow> change_type \<times> candidate_record \<Rightarrow> mesh_manager \<Rightarrow> mesh_manager" where
  "onCandidateChange pid change s =
     (if fst change = added
      then (case map_of (connections s) pid of
              None \<Rightarrow> s
            | Some connection \<Rightarrow>
                (let r = peerConnection connection;
                     s1 = s\<lparr>calls := calls s @
                            [CallAddIceCandidate r (cand_candidate (snd change))]\<rparr>
                 in case pc_addIceCandidate (cand_candidate (snd change)) (pcs s1 r) of
                      Inl e \<Rightarrow> s1
                    | Inr pc' \<Rightarrow> s1\<lparr>pcs := (pcs s1)(r := pc')\<rparr>))
      else s)"

text \<open>The callback of the participants subscription set up by \<open>initialize\<close>, for one change.\<close>

definition onParticipantChange ::
  "change_type \<times> string \<times> string \<Rightarrow> mesh_manager \<Rightarrow> mesh_manager" where
  "onParticipantChange change s =
     (case change of (ty, pid, participantData) \<Rightarrow>
        if ty = added \<and> pid \<noteq> currentUserId s then handleParticipantJoined pid participantData s
        else if ty = removed then handleParticipantLeft pid s
        else s)"

definition addParticipant :: "string \<Rightarrow> mesh_manager \<Rightarrow> mesh_manager" where
  "addParticipant uid s = s\<lparr>written := written s @ [WroteParticipant uid True]\<rparr>"

definition initialize :: "mesh_manager \<Rightarrow> mesh_manager" where
  "initialize s =
     (let s1 = addParticipant (currentUserId s) s
      in s1\<lparr>watchers := watchers s1 @ [ParticipantsWatcher],
            unsubscribe := Some ParticipantsWatcher\<rparr>)"

text \<open>
  Events delivered to a manager: snapshots of the three collections it may watch, the
  events of its peer connections, and the settling of an awaited operation. A snapshot
  reaches the callbacks of the subscriptions that are active when it arrives; a closed peer
  connection raises no events.
\<close>

datatype event =
    ParticipantsSnapshot "(change_type \<times> string \<times> string) list"
  | AnswersSnapshot "answer_record list"
  | CandidatesSnapshot "(change_type \<times> candidate_record) list"
  | IceCandidate nat "ice_candidate option"
  | ConnectionStateChange nat string
  | Track nat "media_track list"
  | Settled nat

definition candidateQuery ::
  "string \<Rightarrow> string \<Rightarrow> (change_type \<times> candidate_record) list
   \<Rightarrow> (change_type \<times> candidate_record) list" where
  "candidateQuery me pid changes =
     filter (\<lambda>ch. cand_from (snd ch) = pid \<and> cand_to (snd ch) = me) changes"

definition toAnswerWatcher :: "answer_record list \<Rightarrow> watcher \<Rightarrow> mesh_manager \<Rightarrow> mesh_manager" where
  "toAnswerWatcher coll w s =
     (case w of
        AnswerWatcher pid \<Rightarrow> onAnswerSnapshot pid (answerQuery (currentUserId s) pid coll) s
      | _ \<Rightarrow> s)"

definition toCandidateWatcher ::
  "(change_type \<times> candidate_record) list \<Rightarrow> watcher \<Rightarrow> mesh_manager \<Rightarrow> mesh_manager" where
  "toCandidateWatcher changes w s =
     (case w of
        CandidateWatcher pid \<Rightarrow>
          fold (onCandidateChange pid) (candidateQuery (currentUserId s) pid changes) s
      | _ \<Rightarrow> s)"

definition onicecandidate :: "nat \<Rightarrow> ice_candidate option \<Rightarrow> mesh_manager \<Rightarrow> mesh_manager" where
  "onicecandidate r candidate s =
     (case candidate of
        None \<Rightarrow> s
      | Some c \<Rightarrow> sendIceCandidate (pcOwner (pcs s r)) c s)"

definition onconnectionstatechange :: "nat \<Rightarrow> string \<Rightarrow> mesh_manager \<Rightarrow> mesh_manager" where
  "onconnectionstatechange r st s =
     (let s1 = s\<lparr>pcs := (pcs s)(r := (pcs s r)\<lparr>connectionState := st\<rparr>)\<rparr>;
          pid = pcOwner (pcs s1 r)
      in case map_of (connections s1) pid of
           None \<Rightarrow> s1
         | Some connection \<Rightarrow>
             s1\<lparr>connections := AList.update pid
                  (connection\<lparr>isConnected := (connectionState (pcs s1 r) = ''connected'')\<rparr>)
                  (connections s1)\<rparr>)"

definition ontrack :: "nat \<Rightarrow> media_track list \<Rightarrow> mesh_manager \<Rightarrow> mesh_manager" where
  "ontrack r tracks s = s\<lparr>streams := (streams s)(r := streams s r @ tracks)\<rparr>"

fun deliver :: "event \<Rightarrow> mesh_manager \<Rightarrow> mesh_manager" where
  "deliver (ParticipantsSnapshot changes) s =
     (if ParticipantsWatcher \<in> set (watchers s) then fold onParticipantChange changes s else s)"
| "deliver (AnswersSnapshot coll) s = fold (toAnswerWatcher coll) (watchers s) s"
| "deliver (CandidatesSnapshot changes) s = fold (toCandidateWatcher changes) (watchers s) s"
| "deliver (IceCandidate r candidate) s =
     (if r < next_ref s \<and> \<not> pcClosed (pcs s r) then onicecandidate r candidate s else s)"
| "deliver (ConnectionStateChange r st) s =
     (if r < next_ref s \<and> \<not> pcClosed (pcs s r) then onconnectionstatechange r st s else s)"
| "deliver (Track r tracks) s =
     (if r < next_ref s \<and> \<not> pcClosed (pcs s r) then ontrack r tracks s else s)"
| "deliver (Settled i) s =
     (if i < length (suspended s)
      then resume (suspended s ! i)
             (s\<lparr>suspended := take i (suspended s) @ drop (Suc i) (suspended s)\<rparr>)
      else s)"

text \<open>\<open>leave\<close>: the update of the own participant document is awaited first and is not
  caught, so a rejected update ends \<open>leave\<close> before anything is closed. \<open>accepted\<close> says
  whether the database accepts that update.\<close>

datatype leave_error = UpdateRejected

definition close_all :: "mesh_manager \<Rightarrow> mesh_manager" where
  "close_all s =
     fold (\<lambda>entry t. t\<lparr>pcs := (pcs t)(peerConnection (snd entry) :=
                                   pc_close (pcs t (peerConnection (snd entry)))),
                       calls := calls t @ [CallClose (peerConnection (snd entry))]\<rparr>)
          (connections s) s"

definition leave :: "bool \<Rightarrow> mesh_manager \<Rightarrow> leave_error + mesh_manager" where
  "leave accepted s =
     (if \<not> accepted then Inl UpdateRejected
      else (let s1 = s\<lparr>written := written s @ [WroteParticipant (currentUserId s) False]\<rparr>;
                s2 = close_all s1;
                s3 = s2\<lparr>connections := [], participants := []\<rparr>
            in Inr (case unsubscribe s3 of
                      None \<Rightarrow> s3
                    | Some w \<Rightarrow> s3\<lparr>watchers := removeAll w (watchers s3)\<rparr>)))"

definition getRemoteStreams :: "mesh_manager \<Rightarrow> nat list" where
  "getRemoteStreams s =
     filter (\<lambda>stream. length (streams s stream) > 0)
       (map (\<lambda>entry. remoteStream (snd entry)) (connections s))"

definition getParticipantCount :: "mesh_manager \<Rightarrow> nat" where
  "getParticipantCount s = length (connections s)"

definition isParticipantConnected :: "mesh_manager \<Rightarrow> string \<Rightarrow> bool" where
  "isParticipantConnected s pid =
     (case map_of (connections s) pid of None \<Rightarrow> False | Some connection \<Rightarrow> isConnected connection)"

text \<open>\<open>createMeshRoom\<close>: a new manager, initialized.\<close>

definition createMeshRoom :: "string \<Rightarrow> mesh_manager" where
  "createMeshRoom uid = initialize (new_WebRTCMeshManager uid)"

text \<open>The states a manager reaches in a session: any sequence of events after
  \<open>createMeshRoom\<close>.\<close>

definition session_state :: "string \<Rightarrow> event list \<Rightarrow> mesh_manager" where
  "session_state uid evs = fold deliver evs (createMeshRoom uid)"

text \<open>Well-formedness of the connection map: one entry per participant id, one peer
  connection per entry, every reference allocated.\<close>

definition wf_connections :: "mesh_manager \<Rightarrow> bool" where
  "wf_connections s =
     (distinct (map fst (connections s)) \<and>
      distinct (map (\<lambda>entry. peerConnection (snd entry)) (connections s)) \<and>
      list_all (\<lambda>entry. peerConnection (snd entry) < next_ref s) (connections s))"

text \<open>No subscription to the candidates collection is active.\<close>

definition no_candidate_watcher :: "mesh_manager \<Rightarrow> bool" where
  "no_candidate_watcher s = (\<forall>p. CandidateWatcher p \<notin> set (watchers s))"

subsection \<open>A room shared by several managers\<close>

text \<open>
  The \<open>participants\<close> collection of a room and the managers of the users in it. A user who
  joins writes the own participant document and then subscribes: \<open>addParticipant\<close> updates
  the document named by the user id when it exists, otherwise \<open>addDoc\<close> creates a document
  with a generated id (\<open>auto_id\<close>). The managers already subscribed receive the change; the
  new manager's first snapshot lists every document as \<open>added\<close>. The participant data kept
  is the \<open>userId\<close> field.
\<close>

record room =
  participantDocs :: "(string \<times> string) list"
  next_auto :: nat
  managers :: "(string \<times> mesh_manager) list"

definition empty_room :: room where
  "empty_room = \<lparr>participantDocs = [], next_auto = 0, managers = []\<rparr>"

definition join :: "(nat \<Rightarrow> string) \<Rightarrow> string \<Rightarrow> room \<Rightarrow> room" where
  "join auto_id uid rm =
     (let (docs, change) =
            (case map_of (participantDocs rm) uid of
               Some d \<Rightarrow> (AList.update uid uid (participantDocs rm), (modified, uid, uid))
             | None \<Rightarrow> (participantDocs rm @ [(auto_id (next_auto rm), uid)],
                        (added, auto_id (next_auto rm), uid)));
          others = map (\<lambda>(u, m). (u, deliver (ParticipantsSnapshot [change]) m)) (managers rm);
          m = deliver (ParticipantsSnapshot (map (\<lambda>(k, d). (added, k, d)) docs))
                (createMeshRoom uid)
      in \<lparr>participantDocs = docs, next_auto = Suc (next_auto rm),
          managers = others @ [(uid, m)]\<rparr>)"

definition manager_of :: "room \<Rightarrow> string \<Rightarrow> mesh_manager" where
  "manager_of rm uid =
     (case map_of (managers rm) uid of None \<Rightarrow> new_WebRTCMeshManager uid | Some m \<Rightarrow> m)"

text \<open>The entries of a manager's connection map that lead to user \<open>u\<close>.\<close>

definition links_to :: "mesh_manager \<Rightarrow> string \<Rightarrow> (string \<times> participant_connection) list" where
  "links_to s u = filter (\<lambda>entry. map_of (participants s) (fst entry) = Some u) (connections s)"

section \<open>The simple room manager (\<open>SimpleWebRTCManager\<close>)\<close>

text \<open>Its connection map holds the peer connections themselves; \<open>remoteStreams\<close> is an array
  of streams. \<open>onStreamsChanged\<close> is either unset or a callback, whose calls are counted.\<close>

record simple_manager =
  sm_currentUserId :: string
  sm_connections :: "(string \<times> nat) list"
  sm_remoteStreams :: "nat list"
  sm_participants :: "(string \<times> string) list"
  sm_pcs :: "nat \<Rightarrow> peer_connection"
  sm_streams :: "nat \<Rightarrow> media_track list"
  sm_next_ref :: nat
  sm_onStreamsChanged :: bool
  sm_notified :: nat
  sm_written :: "signaling_write list"
  sm_calls :: "pc_call list"
  sm_suspended :: "task list"

text \<open>\<open>createOffer\<close> of the simple manager, to its first \<open>await\<close>, and what runs when an awaited
  operation settles: after \<open>setLocalDescription\<close> the offer is written with \<open>setDoc\<close>, and
  nothing follows that write.\<close>

definition Simple_createOffer :: "string \<Rightarrow> simple_manager \<Rightarrow> simple_manager" where
  "Simple_createOffer pid s =
     (case map_of (sm_connections s) pid of
        None \<Rightarrow> s
      | Some r \<Rightarrow>
          (let s1 = s\<lparr>sm_calls := sm_calls s @ [CallCreateOffer r]\<rparr>
           in case pc_createOffer (sm_pcs s1 r) of
                Inl e \<Rightarrow> s1
              | Inr offer \<Rightarrow>
                  s1\<lparr>sm_suspended := sm_suspended s1 @ [AwaitCreateOffer pid r offer]\<rparr>))"

fun Simple_resume :: "task \<Rightarrow> simple_manager \<Rightarrow> simple_manager" where
  "Simple_resume (AwaitCreateOffer pid r offer) s =
     s\<lparr>sm_calls := sm_calls s @ [CallSetLocalDescription r],
       sm_suspended := sm_suspended s @ [AwaitSetLocalDescription pid r offer]\<rparr>"
| "Simple_resume (AwaitSetLocalDescription pid r offer) s =
     (case pc_setLocalDescription offer (sm_pcs s r) of
        Inl e \<Rightarrow> s
      | Inr pc' \<Rightarrow>
          s\<lparr>sm_pcs := (sm_pcs s)(r := pc'),
            sm_written := sm_written s @ [WroteOffer (sm_currentUserId s) pid offer]\<rparr>)"
| "Simple_resume t s = s"

definition Simple_handleParticipantJoined ::
  "string \<Rightarrow> string \<Rightarrow> simple_manager \<Rightarrow> simple_manager" where
  "Simple_handleParticipantJoined pid participantData s =
     (let r = sm_next_ref s;
          s1 = s\<lparr>sm_pcs := (sm_pcs s)(r := new_RTCPeerConnection pid),
                 sm_streams := (sm_streams s)(r := []),
                 sm_next_ref := Suc r\<rparr>;
          s2 = s1\<lparr>sm_connections := AList.update pid r (sm_connections s1)\<rparr>;
          s3 = s2\<lparr>sm_participants := AList.update pid participantData (sm_participants s2)\<rparr>
      in Simple_createOffer pid s3)"

definition Simple_handleParticipantLeft :: "string \<Rightarrow> simple_manager \<Rightarrow> simple_manager" where
  "Simple_handleParticipantLeft pid s =
     (let s1 = (case map_of (sm_connections s) pid of
                  None \<Rightarrow> s
                | Some r \<Rightarrow>
                    s\<lparr>sm_pcs := (sm_pcs s)(r := pc_close (sm_pcs s r)),
                      sm_calls := sm_calls s @ [CallClose r],
                      sm_connections := AList.delete pid (sm_connections s)\<rparr>);
          s2 = s1\<lparr>sm_participants := AList.delete pid (sm_participants s1)\<rparr>;
          s3 = s2\<lparr>sm_remoteStreams :=
                    filter (\<lambda>stream. length (sm_streams s2 stream) > 0) (sm_remoteStreams s2)\<rparr>
      in if sm_onStreamsChanged s3 then s3\<lparr>sm_notified := Suc (sm_notified s3)\<rparr> else s3)"

subsection \<open>Concrete sessions\<close>

definition ex_auto_id :: "nat \<Rightarrow> string" where
  "ex_auto_id n = ''auto-'' @ string_of_nat n"

definition ex_answer :: answer_record where
  "ex_answer = \<lparr>ans_from = ''bob'', ans_to = ''alice'',
     ans_answer = \<lparr>sd_type = ''answer'', sd_sdp = ''v=0 b''\<rparr>, ans_createdAt = 7\<rparr>"

definition ex_candidate :: candidate_record where
  "ex_candidate = \<lparr>cand_from = ''bob'', cand_to = ''alice'',
     cand_candidate = ''candidate:1 1 udp 2122260223 192.0.2.1 54321 typ host'',
     cand_createdAt = 8\<rparr>"

text \<open>Bob joins; \<open>createOffer\<close>, \<open>setLocalDescription\<close> and the offer write settle in turn.\<close>

definition ex_offer_sent :: "event list" where
  "ex_offer_sent =
     [ParticipantsSnapshot [(added, ''bob'', ''bob'')], Settled 0, Settled 0, Settled 0]"

text \<open>Alice's manager after her offer to Bob is written.\<close>

definition ex_alice :: mesh_manager where
  "ex_alice = session_state ''alice'' ex_offer_sent"

text \<open>The same after Bob's answer has arrived and \<open>setRemoteDescription\<close> has settled.\<close>

definition ex_alice_answered :: mesh_manager where
  "ex_alice_answered =
     session_state ''alice'' (ex_offer_sent @ [AnswersSnapshot [ex_answer], Settled 0])"

text \<open>Bob's answer arrives in two snapshots, the second before the first
  \<open>setRemoteDescription\<close> has settled; then both calls settle.\<close>

definition ex_duplicate_answers :: mesh_manager where
  "ex_duplicate_answers =
     session_state ''alice''
       (ex_offer_sent @
        [AnswersSnapshot [ex_answer], AnswersSnapshot [ex_answer], Settled 0, Settled 0])"

text \<open>The same two snapshots, the second after the first call has settled.\<close>

definition ex_sequential_answers :: mesh_manager where
  "ex_sequential_answers =
     session_state ''alice''
       (ex_offer_sent @
        [AnswersSnapshot [ex_answer], Settled 0, AnswersSnapshot [ex_answer]])"

text \<open>Bob joins and leaves while Alice's \<open>createOffer\<close> is suspended at the offer write.\<close>

definition ex_left_during_offer :: mesh_manager where
  "ex_left_during_offer =
     session_state ''alice''
       [ParticipantsSnapshot [(added, ''bob'', ''bob'')], Settled 0, Settled 0,
        ParticipantsSnapshot [(removed, ''bob'', ''bob'')]]"

text \<open>Bob's participant document is reported as added twice, and then as removed.\<close>

definition ex_added_twice :: mesh_manager where
  "ex_added_twice =
     session_state ''alice''
       [ParticipantsSnapshot [(added, ''bob'', ''bob''), (added, ''bob'', ''bob'')],
        ParticipantsSnapshot [(removed, ''bob'', ''bob'')]]"

text \<open>Alice's manager after Bob and Carl have joined.\<close>

definition ex_alice_two :: mesh_manager where
  "ex_alice_two = session_state ''alice''
     [ParticipantsSnapshot [(added, ''bob'', ''bob''), (added, ''carl'', ''carl'')]]"

definition ex_simple :: simple_manager where
  "ex_simple = Simple_handleParticipantJoined ''carl'' ''carl''
     (Simple_handleParticipantJoined ''bob'' ''bob''
       \<lparr>sm_currentUserId = ''alice'', sm_connections = [], sm_remoteStreams = [],
        sm_participants = [(''alice'', ''You'')],
        sm_pcs = (\<lambda>r. new_RTCPeerConnection []), sm_streams = (\<lambda>r. []), sm_next_ref = 0,
        sm_onStreamsChanged = True, sm_notified = 0, sm_written = [], sm_calls = [],
        sm_suspended = []\<rparr>)"

fun is_setRemoteDescription :: "pc_call \<Rightarrow> bool" where
  "is_setRemoteDescription (CallSetRemoteDescription r d) = True"
| "is_setRemoteDescription c = False"

section \<open>The virtual space component: joining a call and moving the avatar\<close>

subsection \<open>\<open>startOrJoinCall\<close>\<close>

text \<open>
  The objects returned by \<open>createMeshRoom\<close> and \<open>createSimpleRoom\<close> are the object literals
  built by the two \<open>initialize\<close> methods. Their members are listed here as the source lists
  them; calling a name that is not a member raises a \<open>TypeError\<close>.
\<close>

definition MeshRoomHandles_members :: "string list" where
  "MeshRoomHandles_members =
     [''roomId'', ''spaceId'', ''localStream'', ''connections'', ''participants'', ''unsubscribe'']"

definition SimpleRoomHandles_members :: "string list" where
  "SimpleRoomHandles_members =
     [''roomId'', ''spaceId'', ''localStream'', ''remoteStreams'', ''participants'', ''unsubscribe'']"

datatype js_error = TypeError string | InitError string

definition call_member :: "string list \<Rightarrow> string \<Rightarrow> js_error option" where
  "call_member names name =
     (if name \<in> set names then None else Some (TypeError (name @ '' is not a function'')))"

record toast =
  variant :: "string option"
  title :: string

datatype room_kind = MeshRoom | SimpleRoom

text \<open>The component state the function touches; \<open>constructed\<close> lists, in order, the room
  constructions attempted.\<close>

record call_state =
  isInCall :: bool
  meshHandlesRef :: bool
  simpleHandlesRef :: bool
  pollingInterval :: bool
  toasts :: "toast list"
  constructed :: "room_kind list"

definition initial_call_state :: call_state where
  "initial_call_state =
     \<lparr>isInCall = False, meshHandlesRef = False, simpleHandlesRef = False,
      pollingInterval = False, toasts = [], constructed = []\<rparr>"

text \<open>The body of the outer \<open>try\<close>: the error raised, if any, and the state reached. What was
  assigned before a \<open>throw\<close> stays assigned. \<open>meshRaises\<close> is the outcome of \<open>createMeshRoom\<close>.\<close>

definition mesh_attempt :: "js_error option \<Rightarrow> call_state \<Rightarrow> js_error option \<times> call_state" where
  "mesh_attempt meshRaises st =
     (let st1 = st\<lparr>constructed := constructed st @ [MeshRoom]\<rparr>
      in case meshRaises of
           Some e \<Rightarrow> (Some e, st1)
         | None \<Rightarrow>
             (let st2 = st1\<lparr>meshHandlesRef := True\<rparr>
              in case call_member MeshRoomHandles_members ''getRemoteStreams'' of
                   Some e \<Rightarrow> (Some e, st2)
                 | None \<Rightarrow>
                     (let st3 = st2\<lparr>pollingInterval := True, isInCall := True\<rparr>
                      in case call_member MeshRoomHandles_members ''getParticipantCount'' of
                           Some e \<Rightarrow> (Some e, st3)
                         | None \<Rightarrow>
                             (None, st3\<lparr>toasts := toasts st3 @
                                [\<lparr>variant = None, title = ''Joined meeting''\<rparr>]\<rparr>))))"

text \<open>The body of the inner \<open>try\<close>.\<close>

definition simple_attempt :: "js_error option \<Rightarrow> call_state \<Rightarrow> js_error option \<times> call_state" where
  "simple_attempt simpleRaises st =
     (let st1 = st\<lparr>constructed := constructed st @ [SimpleRoom]\<rparr>
      in case simpleRaises of
           Some e \<Rightarrow> (Some e, st1)
         | None \<Rightarrow>
             (let st2 = st1\<lparr>simpleHandlesRef := True\<rparr>
              in case call_member SimpleRoomHandles_members ''setOnStreamsChanged'' of
                   Some e \<Rightarrow> (Some e, st2)
                 | None \<Rightarrow>
                     (case call_member SimpleRoomHandles_members ''getRemoteStreams'' of
                        Some e \<Rightarrow> (Some e, st2)
                      | None \<Rightarrow>
                          (None, st2\<lparr>isInCall := True,
                                     toasts := toasts st2 @
                                       [\<lparr>variant = None,
                                         title = ''Joined meeting (Simple Mode)''\<rparr>]\<rparr>))))"

definition startOrJoinCall ::
  "bool \<Rightarrow> string option \<Rightarrow> js_error option \<Rightarrow> js_error option \<Rightarrow> call_state \<Rightarrow> call_state" where
  "startOrJoinCall localStream user meshRaises simpleRaises st =
     (if \<not> localStream \<or> user = None
      then st\<lparr>toasts := toasts st @
                 [\<lparr>variant = Some ''destructive'', title = ''Media not ready''\<rparr>]\<rparr>
      else case mesh_attempt meshRaises st of
             (None, st1) \<Rightarrow> st1
           | (Some meshError, st1) \<Rightarrow>
               (case simple_attempt simpleRaises st1 of
                  (None, st2) \<Rightarrow> st2
                | (Some simpleError, st2) \<Rightarrow>
                    st2\<lparr>toasts := toasts st2 @
                          [\<lparr>variant = Some ''destructive'', title = ''Call failed''\<rparr>]\<rparr>))"

subsection \<open>Keyboard movement\<close>

text \<open>The tile map (\<open>map.json\<close>) is data outside the sources at hand: it is a parameter. A layer
  field checked with \<open>typeof\<close> or \<open>Array.isArray\<close> is optional. Positions are integers.\<close>

record map_layer =
  layer_type :: string
  layer_name :: string
  layer_width :: "int option"
  layer_height :: "int option"
  layer_data :: "int list option"

record office_map =
  map_width :: int
  map_height :: int
  map_layers :: "map_layer list"

record position =
  pos_x :: int
  pos_y :: int

definition GRID_SIZE :: int where
  "GRID_SIZE = 32"

definition STEP :: int where
  "STEP = GRID_SIZE"

definition is_collision_layer :: "map_layer \<Rightarrow> bool" where
  "is_collision_layer layer =
     (layer_type layer = ''tilelayer'' \<and> layer_name layer = ''Tile Layer 8'' \<and>
      layer_width layer \<noteq> None \<and> layer_height layer \<noteq> None \<and> layer_data layer \<noteq> None)"

text \<open>The \<open>for\<close> loop of \<open>isPositionValid\<close> over the layers.\<close>

fun layers_valid :: "map_layer list \<Rightarrow> int \<Rightarrow> int \<Rightarrow> bool" where
  "layers_valid [] tileX tileY = True"
| "layers_valid (layer # rest) tileX tileY =
     (if is_collision_layer layer
      then (let data = the (layer_data layer);
                width = the (layer_width layer);
                height = the (layer_height layer)
            in if tileX < 0 \<or> tileY < 0 \<or> tileX \<ge> width \<or> tileY \<ge> height then False
               else (let tileIndex = tileY * width + tileX
                     in if tileIndex \<ge> 0 \<and> tileIndex < int (length data) \<and>
                           data ! nat tileIndex \<noteq> 0
                        then False
                        else layers_valid rest tileX tileY))
      else layers_valid rest tileX tileY)"

definition tile_of :: "int \<Rightarrow> int" where
  "tile_of c = (c + GRID_SIZE div 2) div GRID_SIZE"

definition isPositionValid :: "office_map \<Rightarrow> position \<Rightarrow> bool" where
  "isPositionValid m pos = layers_valid (map_layers m) (tile_of (pos_x pos)) (tile_of (pos_y pos))"

record space_state =
  avatar :: position
  isTogetherMode :: bool
  containerMounted :: bool
  signedIn :: "string option"
  positionWrites :: "(string \<times> position) list"

definition updatePositionInDb :: "position \<Rightarrow> space_state \<Rightarrow> space_state" where
  "updatePositionInDb newPos st =
     (case signedIn st of
        None \<Rightarrow> st
      | Some uid \<Rightarrow> st\<lparr>positionWrites := positionWrites st @ [(uid, newPos)]\<rparr>)"

definition move :: "office_map \<Rightarrow> string \<Rightarrow> position \<Rightarrow> position option" where
  "move m key prev =
     (let mapWidth = map_width m * GRID_SIZE;
          mapHeight = map_height m * GRID_SIZE;
          avatarSize = 48
      in if key = ''ArrowUp'' then Some (prev\<lparr>pos_y := max 0 (pos_y prev - STEP)\<rparr>)
         else if key = ''ArrowDown''
           then Some (prev\<lparr>pos_y := min (mapHeight - avatarSize) (pos_y prev + STEP)\<rparr>)
         else if key = ''ArrowLeft'' then Some (prev\<lparr>pos_x := max 0 (pos_x prev - STEP)\<rparr>)
         else if key = ''ArrowRight''
           then Some (prev\<lparr>pos_x := min (mapWidth - avatarSize) (pos_x prev + STEP)\<rparr>)
         else None)"

definition handleKeyDown :: "office_map \<Rightarrow> string \<Rightarrow> space_state \<Rightarrow> space_state" where
  "handleKeyDown m key st =
     (if isTogetherMode st then st
      else if \<not> containerMounted st then st
      else case move m key (avatar st) of
             None \<Rightarrow> st
           | Some newPos \<Rightarrow>
               if (pos_x newPos \<noteq> pos_x (avatar st) \<or> pos_y newPos \<noteq> pos_y (avatar st)) \<and>
                  isPositionValid m newPos
               then updatePositionInDb newPos (st\<lparr>avatar := newPos\<rparr>)
               else st)"

text \<open>A position collides when some collision layer holds a nonzero tile under the avatar's
  centre.\<close>

definition collides :: "office_map \<Rightarrow> position \<Rightarrow> bool" where
  "collides m pos =
     list_ex (\<lambda>layer. is_collision_layer layer \<and>
        (let i = tile_of (pos_y pos) * the (layer_width layer) + tile_of (pos_x pos)
         in 0 \<le> i \<and> i < int (length (the (layer_data layer))) \<and>
            the (layer_data layer) ! nat i \<noteq> 0))
       (map_layers m)"

definition in_bounds :: "office_map \<Rightarrow> position \<Rightarrow> bool" where
  "in_bounds m pos =
     (0 \<le> pos_x pos \<and> pos_x pos \<le> map_width m * GRID_SIZE - 48 \<and>
      0 \<le> pos_y pos \<and> pos_y pos \<le> map_height m * GRID_SIZE - 48)"

text \<open>A move along one axis by one step, or by less where the clamp cuts the step short.\<close>

definition one_step :: "int \<Rightarrow> int \<Rightarrow> int \<Rightarrow> bool" where
  "one_step bound old new =
     (new \<noteq> old \<and> \<bar>new - old\<bar> \<le> STEP \<and> (\<bar>new - old\<bar> = STEP \<or> new = 0 \<or> new = bound))"

subsection \<open>A concrete map and state\<close>

definition ex_map :: office_map where
  "ex_map = \<lparr>map_width = 12, map_height = 12,
     map_layers = [\<lparr>layer_type = ''tilelayer'', layer_name = ''Tile Layer 8'',
                    layer_width = Some 12, layer_height = Some 12,
                    layer_data = Some (replicate 129 0 @ [7] @ replicate 14 0)\<rparr>]\<rparr>"

definition ex_space_state :: space_state where
  "ex_space_state = \<lparr>avatar = \<lparr>pos_x = 320, pos_y = 320\<rparr>, isTogetherMode = False,
     containerMounted = True, signedIn = Some ''alice'', positionWrites = []\<rparr>"

section \<open>Properties of the administrative meeting actions\<close>

lemmas ex_defs = ex_db_def ex_meeting_def ex_space_def ex_creator_def ex_attendee_def
  no_failures_def fail_update_u1_def

lemma set_insert_all_set: "set (set_insert_all seen xs) = set seen \<union> set xs"
  by (induction xs arbitrary: seen) auto

lemma set_insert_all_distinct: "distinct seen \<Longrightarrow> distinct (set_insert_all seen xs)"
  by (induction xs arbitrary: seen) auto

lemma uniqueUserIds_set: "set (uniqueUserIds atts c) = set atts \<union> {c}"
  by (simp add: uniqueUserIds_def set_insert_all_set)

lemma uniqueUserIds_distinct: "distinct (uniqueUserIds atts c)"
  by (simp add: uniqueUserIds_def set_insert_all_distinct)

lemma removeFromDashboards_frame:
  "removeFromDashboards fails now sid ids (db, aff, tr) = (db', aff', tr') \<Longrightarrow>
   meetings db' = meetings db \<and> spaces db' = spaces db"
  by (induction ids arbitrary: db aff tr) (auto split: if_splits option.splits)

lemma dashboardRemoval_marks:
  "truthy (Str s) \<Longrightarrow> s \<in> set (or_empty (hiddenMeetings (dashboardRemoval now (Str s) ud)))"
  by (simp add: dashboardRemoval_def or_empty_def Let_def)

lemma removeFromDashboards_marked:
  "truthy (Str s) \<Longrightarrow> \<forall>u \<in> set aff. marked s db u \<Longrightarrow>
   removeFromDashboards fails now (Str s) ids (db, aff, tr) = (db', aff', tr') \<Longrightarrow>
   \<forall>u \<in> set aff'. marked s db' u"
proof (induction ids arbitrary: db aff tr)
  case Nil
  then show ?case by simp
next
  case (Cons a ids)
  show ?case
  proof (cases "fails (GetUser a) \<or> map_of (users db) a = None \<or> fails (UpdateUser a)")
    case True
    with Cons.prems(3) obtain tr0 where
      "removeFromDashboards fails now (Str s) ids (db, aff, tr0) = (db', aff', tr')"
      by (auto split: if_splits option.splits)
    from Cons.IH [OF Cons.prems(1) Cons.prems(2) this] show ?thesis .
  next
    case False
    then obtain ud where ud: "map_of (users db) a = Some ud" by auto
    let ?db1 = "db\<lparr>users := AList.update a (dashboardRemoval now (Str s) ud) (users db)\<rparr>"
    from False ud Cons.prems(3) have run:
      "removeFromDashboards fails now (Str s) ids
         (?db1, aff @ [a], tr @ [GetUser a, UpdateUser a]) = (db', aff', tr')"
      by simp
    have "\<forall>u \<in> set (aff @ [a]). marked s ?db1 u"
      using Cons.prems(1,2) dashboardRemoval_marks [OF Cons.prems(1), of now ud]
      by (auto simp: marked_def update_conv split: option.splits)
    from Cons.IH [OF Cons.prems(1) this run] show ?thesis .
  qed
qed

lemma removeFromDashboards_affected:
  "removeFromDashboards fails now sid ids (db, aff, tr) = (db', aff', tr') \<Longrightarrow>
   distinct ids \<Longrightarrow>
   aff' = aff @ filter (\<lambda>u. updatable fails db u \<and> \<not> fails (UpdateUser u)) ids"
proof (induction ids arbitrary: db aff tr)
  case Nil
  then show ?case by simp
next
  case (Cons a ids)
  from Cons.prems(2) have d: "distinct ids" and a: "a \<notin> set ids" by auto
  show ?case
  proof (cases "updatable fails db a \<and> \<not> fails (UpdateUser a)")
    case False
    with Cons.prems(1) obtain tr0 where
      "removeFromDashboards fails now sid ids (db, aff, tr0) = (db', aff', tr')"
      by (auto simp: updatable_def split: if_splits option.splits)
    from Cons.IH [OF this d] False show ?thesis by simp
  next
    case True
    then obtain ud where ud: "map_of (users db) a = Some ud" by (auto simp: updatable_def)
    let ?db1 = "db\<lparr>users := AList.update a (dashboardRemoval now sid ud) (users db)\<rparr>"
    from True ud Cons.prems(1) have run:
      "removeFromDashboards fails now sid ids
         (?db1, aff @ [a], tr @ [GetUser a, UpdateUser a]) = (db', aff', tr')"
      by (simp add: updatable_def)
    have same: "filter (\<lambda>u. updatable fails ?db1 u \<and> \<not> fails (UpdateUser u)) ids
              = filter (\<lambda>u. updatable fails db u \<and> \<not> fails (UpdateUser u)) ids"
      using a by (intro filter_cong) (auto simp: updatable_def update_conv)
    from Cons.IH [OF run d] True show ?thesis by (simp add: same)
  qed
qed

text \<open>
  Claim C1 fails on the code. The update of the meeting is refused by the database client
  (a \<open>serverTimestamp()\<close> inside \<open>arrayUnion()\<close>), so \<open>endMeetingForAllUsers\<close> reaches its outer
  \<open>catch\<close> before the per-user loop: for every meeting, whatever else is accepted or
  rejected, it reports failure, leaves the database as it was and attempts no
  dashboard-removal update.
\<close>

theorem endMeetingForAllUsers_never_reaches_users:
  "\<not> success (response (endMeetingForAllUsers fails now db mid adminId adminName reason)) \<and>
   db_after (endMeetingForAllUsers fails now db mid adminId adminName reason) = db \<and>
   UpdateUser u \<notin> set (trace (endMeetingForAllUsers fails now db mid adminId adminName reason))"
  by (simp add: endMeetingForAllUsers_def arrayUnion_refused_def failure_def Let_def
      split: option.splits)

theorem endMeetingForAllUsers_never_reaches_users_witness:
  "map_of (meetings ex_db) ''m1'' = Some ex_meeting \<and>
   ''u1'' \<in> set (or_empty (attendees ex_meeting)) \<and> map_of (users ex_db) ''u1'' \<noteq> None \<and>
   response (endMeetingForAllUsers no_failures 5 ex_db ''m1'' ''adm'' ''Admin'' None)
     = failure ''Failed to end meeting'' (Some []) \<and>
   db_after (endMeetingForAllUsers no_failures 5 ex_db ''m1'' ''adm'' ''Admin'' None) = ex_db \<and>
   UpdateUser ''u1''
     \<notin> set (trace (endMeetingForAllUsers no_failures 5 ex_db ''m1'' ''adm'' ''Admin'' None))"
proof -
  have m: "map_of (meetings ex_db) ''m1'' = Some ex_meeting" by (simp add: ex_defs)
  have a: "''u1'' \<in> set (or_empty (attendees ex_meeting))" by (simp add: ex_defs or_empty_def)
  have u: "map_of (users ex_db) ''u1'' \<noteq> None" by (simp add: ex_defs)
  have r: "response (endMeetingForAllUsers no_failures 5 ex_db ''m1'' ''adm'' ''Admin'' None)
     = failure ''Failed to end meeting'' (Some [])"
    using m by (simp add: endMeetingForAllUsers_def arrayUnion_refused_def no_failures_def Let_def)
  from endMeetingForAllUsers_never_reaches_users
         [of no_failures 5 ex_db "''m1''" "''adm''" "''Admin''" None "''u1''"] m a u r
  show ?thesis by simp
qed

text \<open>
  Claim C2. For a meeting record with a space (\<open>spaceId\<close> a non-empty string), when the read
  of the meeting and the two deletions are accepted, \<open>deleteMeetingCompletely\<close> reports
  success, the meeting document and the space document are absent afterwards, the affected
  users are the unique ids among attendees and creator whose record was found and updated,
  and each of them has the space's id in \<open>hiddenMeetings\<close> afterwards.
\<close>

theorem deleteMeetingCompletely_removes_meeting_and_space:
  assumes found: "map_of (meetings db) mid = Some m"
    and sid: "spaceId m = Str s" "s \<noteq> []"
    and ok: "\<not> fails (GetMeeting mid)" "\<not> fails (DeleteMeeting mid)" "\<not> fails (DeleteSpace s)"
  shows "success (response (deleteMeetingCompletely fails now db mid adminId adminName reason)) \<and>
         map_of (meetings (db_after (deleteMeetingCompletely fails now db mid adminId adminName reason))) mid = None \<and>
         map_of (spaces (db_after (deleteMeetingCompletely fails now db mid adminId adminName reason))) s = None \<and>
         affectedUsers (response (deleteMeetingCompletely fails now db mid adminId adminName reason)) =
           Some (filter (\<lambda>u. updatable fails db u \<and> \<not> fails (UpdateUser u))
                   (uniqueUserIds (or_empty (attendees m)) (creatorId m))) \<and>
         (\<forall>u \<in> set (or_empty (affectedUsers (response
               (deleteMeetingCompletely fails now db mid adminId adminName reason)))).
            marked s (db_after (deleteMeetingCompletely fails now db mid adminId adminName reason)) u)"
proof -
  let ?ids = "uniqueUserIds (or_empty (attendees m)) (creatorId m)"
  obtain db1 aff tr1 where run:
    "removeFromDashboards fails now (Str s) ?ids (db, [], [GetMeeting mid]) = (db1, aff, tr1)"
    by (metis prod_cases3)
  have t: "truthy (Str s)" using sid by simp
  let ?r = "deleteMeetingCompletely fails now db mid adminId adminName reason"
  have r: "?r = \<lparr>response = \<lparr>success = True,
                           message = ''Meeting deleted completely. Removed from '' @
                             string_of_nat (length aff) @ '' users' dashboards.'',
                           affectedUsers = Some aff\<rparr>,
                db_after = db1\<lparr>meetings := AList.delete mid (meetings db1),
                               spaces := AList.delete s (spaces db1)\<rparr>,
                trace = tr1 @ [DeleteMeeting mid, DeleteSpace s]\<rparr>"
    using found sid ok run t by (simp add: deleteMeetingCompletely_def Let_def)
  have m: "\<forall>u \<in> set aff. marked s db1 u"
    using removeFromDashboards_marked [OF t _ run] by simp
  have a: "aff = filter (\<lambda>u. updatable fails db u \<and> \<not> fails (UpdateUser u)) ?ids"
    using removeFromDashboards_affected [OF run uniqueUserIds_distinct] by simp
  have m': "\<forall>u \<in> set aff. marked s (db_after ?r) u"
    using m by (simp add: r marked_def)
  show ?thesis
    using m' a by (simp add: r or_empty_def delete_conv)
qed

theorem deleteMeetingCompletely_removes_meeting_and_space_witness:
  "map_of (meetings ex_db) ''m1'' = Some ex_meeting \<and> spaceId ex_meeting = Str ''s1'' \<and>
   ''s1'' \<noteq> [] \<and> \<not> fail_update_u1 (GetMeeting ''m1'') \<and>
   \<not> fail_update_u1 (DeleteMeeting ''m1'') \<and> \<not> fail_update_u1 (DeleteSpace ''s1'') \<and>
   success (response (deleteMeetingCompletely fail_update_u1 5 ex_db ''m1'' ''adm'' ''Admin'' None)) \<and>
   map_of (meetings (db_after
     (deleteMeetingCompletely fail_update_u1 5 ex_db ''m1'' ''adm'' ''Admin'' None))) ''m1'' = None \<and>
   map_of (spaces (db_after
     (deleteMeetingCompletely fail_update_u1 5 ex_db ''m1'' ''adm'' ''Admin'' None))) ''s1'' = None \<and>
   affectedUsers (response
     (deleteMeetingCompletely fail_update_u1 5 ex_db ''m1'' ''adm'' ''Admin'' None)) = Some [''c1''] \<and>
   marked ''s1'' (db_after
     (deleteMeetingCompletely fail_update_u1 5 ex_db ''m1'' ''adm'' ''Admin'' None)) ''c1''"
proof -
  have h1: "map_of (meetings ex_db) ''m1'' = Some ex_meeting" by (simp add: ex_defs)
  have h2: "spaceId ex_meeting = Str ''s1''" by (simp add: ex_defs)
  have h3: "''s1'' \<noteq> []" by simp
  have h4: "\<not> fail_update_u1 (GetMeeting ''m1'')" by (simp add: ex_defs)
  have h5: "\<not> fail_update_u1 (DeleteMeeting ''m1'')" by (simp add: ex_defs)
  have h6: "\<not> fail_update_u1 (DeleteSpace ''s1'')" by (simp add: ex_defs)
  have f: "filter (\<lambda>u. updatable fail_update_u1 ex_db u \<and> \<not> fail_update_u1 (UpdateUser u))
             (uniqueUserIds (or_empty (attendees ex_meeting)) (creatorId ex_meeting)) = [''c1'']"
    by (simp add: updatable_def uniqueUserIds_def or_empty_def ex_defs)
  from deleteMeetingCompletely_removes_meeting_and_space
         [OF h1 h2 h3 h4 h5 h6, of 5 "''adm''" "''Admin''" None]
    h1 h2 h3 h4 h5 h6 f
  show ?thesis by (simp add: or_empty_def)
qed

text \<open>
  Claim C5 fails on the code, by the same defect as claim C1: the update of the meeting is
  refused by the database client, so \<open>removeAttendeeFromMeeting\<close>, in either service,
  reports failure and leaves the database as it was. The attendee stays in the attendee
  list and no user record is updated.
\<close>

theorem removeAttendeeFromMeeting_never_removes:
  "\<not> success (response
      (removeAttendeeFromMeeting svc fails now db mid a adminId adminName reason)) \<and>
   db_after (removeAttendeeFromMeeting svc fails now db mid a adminId adminName reason) = db \<and>
   UpdateUser u
     \<notin> set (trace (removeAttendeeFromMeeting svc fails now db mid a adminId adminName reason))"
  by (simp add: removeAttendeeFromMeeting_def arrayUnion_refused_def failure_def Let_def
      split: option.splits)

theorem removeAttendeeFromMeeting_never_removes_witness:
  "map_of (meetings ex_db) ''m1'' = Some ex_meeting \<and>
   ''u1'' \<in> set (or_empty (attendees ex_meeting)) \<and>
   response (removeAttendeeFromMeeting ControlService no_failures 5 ex_db ''m1'' ''u1''
               ''adm'' ''Admin'' None)
     = failure ''Failed to remove attendee from meeting'' None \<and>
   map_of (meetings (db_after (removeAttendeeFromMeeting ControlService no_failures 5 ex_db
               ''m1'' ''u1'' ''adm'' ''Admin'' None))) ''m1'' = Some ex_meeting"
proof -
  have m: "map_of (meetings ex_db) ''m1'' = Some ex_meeting" by (simp add: ex_defs)
  have a: "''u1'' \<in> set (or_empty (attendees ex_meeting))" by (simp add: ex_defs or_empty_def)
  have r: "response (removeAttendeeFromMeeting ControlService no_failures 5 ex_db ''m1'' ''u1''
               ''adm'' ''Admin'' None)
     = failure ''Failed to remove attendee from meeting'' None"
    using m by (simp add: removeAttendeeFromMeeting_def arrayUnion_refused_def no_failures_def
        Let_def)
  from removeAttendeeFromMeeting_never_removes
         [of ControlService no_failures 5 ex_db "''m1''" "''u1''" "''adm''" "''Admin''" None "''u1''"]
    m a r
  show ?thesis by simp
qed

section \<open>Properties of the mesh and simple room managers\<close>

lemma fold_invariant:
  "P s \<Longrightarrow> (\<And>x t. P t \<Longrightarrow> P (f x t)) \<Longrightarrow> P (fold f xs s)"
  by (induction xs arbitrary: s) auto

lemma createOffer_connections [simp]:
  "connections (createOffer pid s) = connections s"
  "next_ref (createOffer pid s) = next_ref s"
  "participants (createOffer pid s) = participants s"
  by (auto simp: createOffer_def listenForAnswer_def Let_def split: option.splits sum.splits)

lemma handleParticipantJoined_connections:
  "connections (handleParticipantJoined pid d s) =
     AList.update pid \<lparr>participantId = pid, peerConnection = next_ref s, remoteStream = next_ref s,
                      isConnected = False, isInitiator = True\<rparr> (connections s)"
  "next_ref (handleParticipantJoined pid d s) = Suc (next_ref s)"
  "participants (handleParticipantJoined pid d s) = AList.update pid d (participants s)"
  by (simp_all add: handleParticipantJoined_def Let_def)

lemma handleParticipantLeft_connections:
  "connections (handleParticipantLeft pid s) = AList.delete pid (connections s)"
  "next_ref (handleParticipantLeft pid s) = next_ref s"
  "participants (handleParticipantLeft pid s) = AList.delete pid (participants s)"
  by (auto simp: handleParticipantLeft_def Let_def delete_notin_dom map_of_eq_None_iff
      split: option.splits intro: delete_id [symmetric])

lemma onAnswerSnapshot_connections [simp]:
  "connections (onAnswerSnapshot pid docs s) = connections s"
  "next_ref (onAnswerSnapshot pid docs s) = next_ref s"
  "participants (onAnswerSnapshot pid docs s) = participants s"
  by (auto simp: onAnswerSnapshot_def Let_def split: option.splits sum.splits list.splits)

lemma resume_connections [simp]:
  "connections (resume t s) = connections s"
  "next_ref (resume t s) = next_ref s"
  "participants (resume t s) = participants s"
  by (cases t; auto simp: listenForAnswer_def split: sum.splits)+

lemma onCandidateChange_connections [simp]:
  "connections (onCandidateChange pid ch s) = connections s"
  "next_ref (onCandidateChange pid ch s) = next_ref s"
  "participants (onCandidateChange pid ch s) = participants s"
  by (auto simp: onCandidateChange_def Let_def split: option.splits sum.splits)

lemma set_update_subset: "set (AList.update k v al) \<subseteq> insert (k, v) (set al)"
  by (induction al) auto

lemma update_refs_fresh:
  "distinct (map (\<lambda>e. g (snd e)) al) \<Longrightarrow> g v \<notin> (\<lambda>e. g (snd e)) ` set al \<Longrightarrow>
   distinct (map (\<lambda>e. g (snd e)) (AList.update k v al))"
proof (induction al)
  case Nil
  then show ?case by simp
next
  case (Cons a al)
  obtain k' c' where a: "a = (k', c')" by (cases a)
  show ?case
  proof (cases "k' = k")
    case True
    with a Cons.prems show ?thesis by simp
  next
    case False
    from Cons.prems a have d: "distinct (map (\<lambda>e. g (snd e)) al)"
      and f: "g v \<notin> (\<lambda>e. g (snd e)) ` set al"
      and n: "g c' \<notin> (\<lambda>e. g (snd e)) ` set al" and ne: "g c' \<noteq> g v"
      by auto
    have "g c' \<notin> (\<lambda>e. g (snd e)) ` set (AList.update k v al)"
    proof
      assume "g c' \<in> (\<lambda>e. g (snd e)) ` set (AList.update k v al)"
      then obtain e where e: "e \<in> set (AList.update k v al)" and eq: "g c' = g (snd e)" by auto
      from e set_update_subset [of k v al] have "e = (k, v) \<or> e \<in> set al" by auto
      with eq ne n show False by auto
    qed
    with Cons.IH [OF d f] a False show ?thesis by simp
  qed
qed

lemma update_refs_same:
  "map_of al k = Some c \<Longrightarrow> g v = g c \<Longrightarrow>
   map (\<lambda>e. g (snd e)) (AList.update k v al) = map (\<lambda>e. g (snd e)) al"
  by (induction al) auto

lemma update_all:
  "list_all (\<lambda>e. P (snd e)) al \<Longrightarrow> P v \<Longrightarrow> list_all (\<lambda>e. P (snd e)) (AList.update k v al)"
  by (induction al) auto

lemma wf_handleParticipantJoined:
  assumes "wf_connections s"
  shows "wf_connections (handleParticipantJoined pid d s)"
proof -
  let ?v = "\<lparr>participantId = pid, peerConnection = next_ref s, remoteStream = next_ref s,
             isConnected = False, isInitiator = True\<rparr>"
  from assms have all: "list_all (\<lambda>e. peerConnection (snd e) < next_ref s) (connections s)"
    by (simp add: wf_connections_def)
  then have fresh: "peerConnection ?v \<notin> (\<lambda>e. peerConnection (snd e)) ` set (connections s)"
    by (auto simp: list_all_iff)
  from all have all': "list_all (\<lambda>e. peerConnection (snd e) < Suc (next_ref s)) (connections s)"
    by (auto simp: list_all_iff)
  from assms update_refs_fresh [of peerConnection "connections s" ?v pid, OF _ fresh]
    update_all [of "\<lambda>c. peerConnection c < Suc (next_ref s)" "connections s" ?v pid, OF all']
  show ?thesis
    by (simp add: wf_connections_def handleParticipantJoined_connections distinct_update)
qed

lemma wf_handleParticipantLeft:
  assumes "wf_connections s"
  shows "wf_connections (handleParticipantLeft pid s)"
  using assms
  by (auto simp: wf_connections_def handleParticipantLeft_connections distinct_delete
      AList.delete_eq distinct_map_filter list_all_iff)

lemma wf_onParticipantChange:
  "wf_connections s \<Longrightarrow> wf_connections (onParticipantChange ch s)"
  by (auto simp: onParticipantChange_def wf_handleParticipantJoined wf_handleParticipantLeft
      split: prod.splits)

lemma wf_same:
  "connections t = connections s \<Longrightarrow> next_ref t = next_ref s \<Longrightarrow>
   wf_connections s \<Longrightarrow> wf_connections t"
  by (simp add: wf_connections_def)

lemma wf_toAnswerWatcher: "wf_connections s \<Longrightarrow> wf_connections (toAnswerWatcher coll w s)"
  by (cases w) (auto simp: toAnswerWatcher_def elim: wf_same [rotated 2])

lemma wf_toCandidateWatcher:
  "wf_connections s \<Longrightarrow> wf_connections (toCandidateWatcher chs w s)"
proof (cases w)
  case (CandidateWatcher pid)
  assume "wf_connections s"
  then have "wf_connections (fold (onCandidateChange pid) (candidateQuery (currentUserId s) pid chs) s)"
    by (rule fold_invariant) (auto elim: wf_same [rotated 2])
  with CandidateWatcher show ?thesis by (simp add: toCandidateWatcher_def)
qed (simp_all add: toCandidateWatcher_def)

lemma wf_onconnectionstatechange:
  assumes "wf_connections s"
  shows "wf_connections (onconnectionstatechange r st s)"
proof (cases "map_of (connections s) (pcOwner (pcs s r))")
  case None
  with assms show ?thesis
    by (simp add: onconnectionstatechange_def Let_def wf_connections_def)
next
  case (Some c)
  let ?v = "c\<lparr>isConnected := (st = ''connected'')\<rparr>"
  have refs: "map (\<lambda>e. peerConnection (snd e)) (AList.update (pcOwner (pcs s r)) ?v (connections s))
        = map (\<lambda>e. peerConnection (snd e)) (connections s)"
    by (rule update_refs_same [OF Some]) simp
  have "list_all (\<lambda>e. peerConnection (snd e) < next_ref s)
          (AList.update (pcOwner (pcs s r)) ?v (connections s))"
  proof -
    from assms have "\<forall>x \<in> set (map (\<lambda>e. peerConnection (snd e)) (connections s)). x < next_ref s"
      by (auto simp: wf_connections_def list_all_iff)
    then have "\<forall>x \<in> set (map (\<lambda>e. peerConnection (snd e))
                 (AList.update (pcOwner (pcs s r)) ?v (connections s))). x < next_ref s"
      by (simp only: refs)
    then show ?thesis by (auto simp: list_all_iff)
  qed
  with Some assms refs show ?thesis
    by (simp add: onconnectionstatechange_def Let_def wf_connections_def distinct_update)
qed

lemma wf_deliver: "wf_connections s \<Longrightarrow> wf_connections (deliver e s)"
proof (cases e)
  case (ParticipantsSnapshot chs)
  assume "wf_connections s"
  then have "wf_connections (fold onParticipantChange chs s)"
    by (rule fold_invariant) (rule wf_onParticipantChange)
  with ParticipantsSnapshot \<open>wf_connections s\<close> show ?thesis by simp
next
  case (AnswersSnapshot coll)
  assume "wf_connections s"
  then have "wf_connections (fold (toAnswerWatcher coll) (watchers s) s)"
    by (rule fold_invariant) (rule wf_toAnswerWatcher)
  with AnswersSnapshot show ?thesis by simp
next
  case (CandidatesSnapshot chs)
  assume "wf_connections s"
  then have "wf_connections (fold (toCandidateWatcher chs) (watchers s) s)"
    by (rule fold_invariant) (rule wf_toCandidateWatcher)
  with CandidatesSnapshot show ?thesis by simp
next
  case (IceCandidate r c)
  assume "wf_connections s"
  with IceCandidate show ?thesis
    by (auto simp: onicecandidate_def sendIceCandidate_def wf_connections_def split: option.splits)
next
  case (ConnectionStateChange r st)
  assume "wf_connections s"
  with ConnectionStateChange show ?thesis by (simp add: wf_onconnectionstatechange)
next
  case (Track r ts)
  assume "wf_connections s"
  with Track show ?thesis by (simp add: ontrack_def wf_connections_def)
next
  case (Settled i)
  assume "wf_connections s"
  with Settled show ?thesis by (auto elim: wf_same [rotated 2])
qed

lemma wf_createMeshRoom: "wf_connections (createMeshRoom uid)"
  by (simp add: createMeshRoom_def initialize_def addParticipant_def new_WebRTCMeshManager_def
      wf_connections_def Let_def)

lemma wf_session_state: "wf_connections (session_state uid evs)"
  unfolding session_state_def
  by (rule fold_invariant [where P = wf_connections]) (simp_all add: wf_createMeshRoom wf_deliver)

lemma at_most_one_entry:
  "distinct (map fst al) \<Longrightarrow> length (filter (\<lambda>entry. fst entry = p) al) \<le> 1"
proof (induction al)
  case Nil
  then show ?case by simp
next
  case (Cons a al)
  from Cons.prems have n: "fst a \<notin> fst ` set al" and d: "distinct (map fst al)" by auto
  show ?case
  proof (cases "fst a = p")
    case True
    have "\<forall>e \<in> set al. fst e \<noteq> p"
    proof
      fix e assume "e \<in> set al"
      then have "fst e \<in> fst ` set al" by (rule imageI)
      with n True show "fst e \<noteq> p" by metis
    qed
    then have "filter (\<lambda>entry. fst entry = p) al = []" by (simp add: filter_empty_conv)
    with True show ?thesis by simp
  next
    case False
    with Cons.IH [OF d] show ?thesis by simp
  qed
qed

lemmas mesh_defs = createMeshRoom_def initialize_def addParticipant_def new_WebRTCMeshManager_def
  onParticipantChange_def handleParticipantJoined_def createOffer_def listenForAnswer_def
  pc_createOffer_def pc_setLocalDescription_def new_RTCPeerConnection_def

text \<open>In a session the connection map has one entry per participant document id at most.\<close>

lemma session_one_entry_per_document_id:
  "distinct (map fst (connections (session_state uid evs))) \<and>
   length (filter (\<lambda>entry. fst entry = p) (connections (session_state uid evs))) \<le> 1"
proof -
  have d: "distinct (map fst (connections (session_state uid evs)))"
    using wf_session_state [of uid evs] by (simp add: wf_connections_def)
  from d at_most_one_entry [OF d, of p] show ?thesis by simp
qed

text \<open>When two users join an empty room once each, each manager ends with exactly one
  entry that leads to the other user.\<close>

lemma two_joins:
  assumes "A \<noteq> B" "gen 0 \<noteq> gen (Suc 0)" "gen 0 \<noteq> A" "gen 0 \<noteq> B" "gen (Suc 0) \<noteq> A" "gen (Suc 0) \<noteq> B"
  shows "length (links_to (manager_of (join gen B (join gen A empty_room)) A) B) = 1 \<and>
         length (links_to (manager_of (join gen B (join gen A empty_room)) B) A) = 1"
  using assms
  by (simp add: join_def empty_room_def manager_of_def links_to_def mesh_defs Let_def)

text \<open>
  Claim C4 fails on the code. \<open>addParticipant\<close> falls back to \<open>addDoc\<close>, which stores the
  participant under a generated document id, and the connection map is keyed by that id.
  When Alice joins, Bob joins and Alice joins again, her second join adds a second document
  for her, and Bob's manager holds two open links to Alice: two connection entries, each
  with its own peer connection, neither closed.
\<close>

theorem rejoin_gives_second_link:
  "map (\<lambda>entry. map_of (participants
          (manager_of (join ex_auto_id ''alice'' (join ex_auto_id ''bob''
             (join ex_auto_id ''alice'' empty_room))) ''bob'')) (fst entry))
       (links_to (manager_of (join ex_auto_id ''alice'' (join ex_auto_id ''bob''
          (join ex_auto_id ''alice'' empty_room))) ''bob'') ''alice'')
     = [Some ''alice'', Some ''alice''] \<and>
   map fst (links_to (manager_of (join ex_auto_id ''alice'' (join ex_auto_id ''bob''
          (join ex_auto_id ''alice'' empty_room))) ''bob'') ''alice'')
     = [ex_auto_id 0, ex_auto_id 2] \<and>
   \<not> pcClosed (pcs (manager_of (join ex_auto_id ''alice'' (join ex_auto_id ''bob''
          (join ex_auto_id ''alice'' empty_room))) ''bob'') 0) \<and>
   \<not> pcClosed (pcs (manager_of (join ex_auto_id ''alice'' (join ex_auto_id ''bob''
          (join ex_auto_id ''alice'' empty_room))) ''bob'') 2)"
  by (simp add: join_def empty_room_def manager_of_def links_to_def mesh_defs Let_def
      ex_auto_id_def string_of_nat.simps digit_char_def)

lemma session_state_append:
  "session_state uid (evs @ evs') = fold deliver evs' (session_state uid evs)"
  by (simp add: session_state_def)

lemma ex_alice_state:
  "ex_alice =
    \<lparr>currentUserId = ''alice'',
     connections = [(''bob'', \<lparr>participantId = ''bob'', peerConnection = 0, remoteStream = 0,
                               isConnected = False, isInitiator = True\<rparr>)],
     participants = [(''bob'', ''bob'')],
     pcs = (\<lambda>r. new_RTCPeerConnection [])
             (0 := (new_RTCPeerConnection ''bob'')\<lparr>localDescription := Some browser_offer,
                                                  signalingState := HaveLocalOffer\<rparr>),
     streams = (\<lambda>r. [])(0 := []), next_ref = Suc 0,
     watchers = [ParticipantsWatcher, AnswerWatcher ''bob''],
     unsubscribe = Some ParticipantsWatcher,
     written = [WroteParticipant ''alice'' True, WroteOffer ''alice'' ''bob'' browser_offer],
     calls = [CallCreateOffer 0, CallSetLocalDescription 0],
     suspended = []\<rparr>"
  by (simp add: ex_alice_def ex_offer_sent_def session_state_def mesh_defs Let_def)

lemma answerQuery_ex_answer: "answerQuery ''alice'' ''bob'' [ex_answer] = [ex_answer]"
  by (simp add: answerQuery_def ex_answer_def)

lemma ex_alice_answered_state:
  "ex_alice_answered =
    \<lparr>currentUserId = ''alice'',
     connections = [(''bob'', \<lparr>participantId = ''bob'', peerConnection = 0, remoteStream = 0,
                               isConnected = False, isInitiator = True\<rparr>)],
     participants = [(''bob'', ''bob'')],
     pcs = (\<lambda>r. new_RTCPeerConnection [])
             (0 := (new_RTCPeerConnection ''bob'')\<lparr>localDescription := Some browser_offer,
                                                  signalingState := Stable,
                                                  currentRemoteDescription :=
                                                    Some (ans_answer ex_answer)\<rparr>),
     streams = (\<lambda>r. [])(0 := []), next_ref = Suc 0,
     watchers = [ParticipantsWatcher],
     unsubscribe = Some ParticipantsWatcher,
     written = [WroteParticipant ''alice'' True, WroteOffer ''alice'' ''bob'' browser_offer],
     calls = [CallCreateOffer 0, CallSetLocalDescription 0,
              CallSetRemoteDescription 0 (ans_answer ex_answer)],
     suspended = []\<rparr>"
  unfolding ex_alice_answered_def session_state_append ex_alice_def [symmetric] ex_alice_state
  by (simp add: toAnswerWatcher_def answerQuery_ex_answer onAnswerSnapshot_def
      pc_setRemoteDescription_def new_RTCPeerConnection_def Let_def)

text \<open>When the second snapshot arrives after the first call has settled, the guard holds it
  back: \<open>setRemoteDescription\<close> is called once.\<close>

lemma sequential_answers_applied_once:
  "calls ex_sequential_answers =
     [CallCreateOffer 0, CallSetLocalDescription 0,
      CallSetRemoteDescription 0 (ans_answer ex_answer)]"
proof -
  have e: "ex_sequential_answers = deliver (AnswersSnapshot [ex_answer]) ex_alice_answered"
    by (simp add: ex_sequential_answers_def ex_alice_answered_def session_state_def
        del: deliver.simps)
  show ?thesis
    unfolding e ex_alice_answered_state by (simp add: toAnswerWatcher_def)
qed

text \<open>
  Claim C6 fails on the code. The answer callback reads the guard and then awaits
  \<open>setRemoteDescription\<close>; the remote description is set only when that call settles. A
  duplicate snapshot of the same answer record that arrives before then passes the guard
  too: \<open>setRemoteDescription\<close> is called twice on the initiator's peer connection, with the
  same answer. (The browser refuses the second call; it is caught and logged.)
\<close>

theorem duplicate_answer_is_applied_twice:
  "calls ex_duplicate_answers =
     [CallCreateOffer 0, CallSetLocalDescription 0,
      CallSetRemoteDescription 0 (ans_answer ex_answer),
      CallSetRemoteDescription 0 (ans_answer ex_answer)] \<and>
   length (filter is_setRemoteDescription (calls ex_duplicate_answers)) = 2 \<and>
   WroteOffer ''alice'' ''bob'' browser_offer \<in> set (written ex_duplicate_answers) \<and>
   currentRemoteDescription (pcs ex_duplicate_answers 0) = Some (ans_answer ex_answer)"
proof -
  have e: "ex_duplicate_answers =
      fold deliver
        [AnswersSnapshot [ex_answer], AnswersSnapshot [ex_answer], Settled 0, Settled 0]
        ex_alice"
    by (simp add: ex_duplicate_answers_def ex_alice_def session_state_def del: deliver.simps)
  show ?thesis
    unfolding e ex_alice_state
    by (simp add: toAnswerWatcher_def answerQuery_ex_answer onAnswerSnapshot_def
        pc_setRemoteDescription_def new_RTCPeerConnection_def Let_def)
qed

lemma createOffer_watchers [simp]: "watchers (createOffer pid s) = watchers s"
  by (simp add: createOffer_def Let_def split: option.splits sum.splits)

lemma ncw_handleParticipantJoined:
  "no_candidate_watcher s \<Longrightarrow> no_candidate_watcher (handleParticipantJoined pid d s)"
  by (simp add: no_candidate_watcher_def handleParticipantJoined_def Let_def)

lemma ncw_handleParticipantLeft:
  "no_candidate_watcher s \<Longrightarrow> no_candidate_watcher (handleParticipantLeft pid s)"
  by (auto simp: no_candidate_watcher_def handleParticipantLeft_def Let_def split: option.splits)

lemma ncw_onAnswerSnapshot:
  "no_candidate_watcher s \<Longrightarrow> no_candidate_watcher (onAnswerSnapshot pid docs s)"
  by (auto simp: no_candidate_watcher_def onAnswerSnapshot_def Let_def
      split: option.splits list.splits)

lemma ncw_resume: "no_candidate_watcher s \<Longrightarrow> no_candidate_watcher (resume t s)"
  by (cases t)
     (auto simp: no_candidate_watcher_def listenForAnswer_def split: sum.splits
        dest: notin_set_remove1)

lemma fold_toCandidateWatcher_none:
  "\<forall>p. CandidateWatcher p \<notin> set ws \<Longrightarrow> fold (toCandidateWatcher chs) ws s = s"
proof (induction ws arbitrary: s)
  case Nil
  then show ?case by simp
next
  case (Cons w ws)
  from Cons.prems have w: "\<forall>p. w \<noteq> CandidateWatcher p"
    and ws: "\<forall>p. CandidateWatcher p \<notin> set ws" by auto
  from w have "toCandidateWatcher chs w s = s"
    by (cases w) (simp_all add: toCandidateWatcher_def)
  with Cons.IH [OF ws] show ?case by simp
qed

lemma ncw_deliver: "no_candidate_watcher s \<Longrightarrow> no_candidate_watcher (deliver e s)"
proof (cases e)
  case (ParticipantsSnapshot chs)
  assume a: "no_candidate_watcher s"
  then have "no_candidate_watcher (fold onParticipantChange chs s)"
    by (rule fold_invariant)
       (auto simp: onParticipantChange_def ncw_handleParticipantJoined ncw_handleParticipantLeft
          split: prod.splits)
  with ParticipantsSnapshot a show ?thesis by simp
next
  case (AnswersSnapshot coll)
  assume a: "no_candidate_watcher s"
  then have "no_candidate_watcher (fold (toAnswerWatcher coll) (watchers s) s)"
  proof (rule fold_invariant)
    fix w t assume "no_candidate_watcher t"
    then show "no_candidate_watcher (toAnswerWatcher coll w t)"
      by (cases w) (simp_all add: toAnswerWatcher_def ncw_onAnswerSnapshot)
  qed
  with AnswersSnapshot show ?thesis by simp
next
  case (CandidatesSnapshot chs)
  assume a: "no_candidate_watcher s"
  then have "fold (toCandidateWatcher chs) (watchers s) s = s"
    by (intro fold_toCandidateWatcher_none) (simp add: no_candidate_watcher_def)
  with CandidatesSnapshot a show ?thesis by simp
next
  case (IceCandidate r c)
  assume "no_candidate_watcher s"
  with IceCandidate show ?thesis
    by (auto simp: no_candidate_watcher_def onicecandidate_def sendIceCandidate_def
        split: option.splits)
next
  case (ConnectionStateChange r st)
  assume "no_candidate_watcher s"
  with ConnectionStateChange show ?thesis
    by (auto simp: no_candidate_watcher_def onconnectionstatechange_def Let_def
        split: option.splits)
next
  case (Track r ts)
  assume "no_candidate_watcher s"
  with Track show ?thesis by (simp add: no_candidate_watcher_def ontrack_def)
next
  case (Settled i)
  assume a: "no_candidate_watcher s"
  then have "no_candidate_watcher (s\<lparr>suspended := take i (suspended s) @ drop (Suc i) (suspended s)\<rparr>)"
    by (simp add: no_candidate_watcher_def)
  from ncw_resume [OF this] a Settled show ?thesis by simp
qed

lemma ncw_session_state: "no_candidate_watcher (session_state uid evs)"
  unfolding session_state_def
proof (rule fold_invariant [where P = no_candidate_watcher])
  show "no_candidate_watcher (createMeshRoom uid)"
    by (simp add: no_candidate_watcher_def createMeshRoom_def initialize_def
        addParticipant_def new_WebRTCMeshManager_def Let_def)
qed (rule ncw_deliver)

text \<open>
  Claim C3 fails on the code. \<open>listenForIceCandidates\<close> is the only subscription to the
  candidates collection, and nothing calls it: in every state of a session no candidate
  subscription is active, so a snapshot of the candidates collection, whatever records it
  holds, changes nothing in the manager (no \<open>addIceCandidate\<close> call is made).
\<close>

theorem candidate_records_never_applied:
  "deliver (CandidatesSnapshot changes) (session_state uid evs) = session_state uid evs"
  using ncw_session_state [of uid evs]
  by (simp add: fold_toCandidateWatcher_none no_candidate_watcher_def)

text \<open>Had \<open>listenForIceCandidates\<close> been called for Bob, the same record would have been
  added to Bob's peer connection; as the code stands it is not.\<close>

lemma listenForIceCandidates_would_apply:
  "addedCandidates (pcs (deliver (CandidatesSnapshot [(added, ex_candidate)])
      (listenForIceCandidates ''bob'' ex_alice_answered)) 0) = [cand_candidate ex_candidate] \<and>
   addedCandidates (pcs (deliver (CandidatesSnapshot [(added, ex_candidate)])
      ex_alice_answered) 0) = []"
  unfolding ex_alice_answered_state
  by (simp add: listenForIceCandidates_def toCandidateWatcher_def candidateQuery_def
      onCandidateChange_def pc_addIceCandidate_def ex_candidate_def new_RTCPeerConnection_def
      Let_def)

lemma close_all_fold:
  "connections (fold (\<lambda>entry t. t\<lparr>pcs := (pcs t)(peerConnection (snd entry) :=
                                   pc_close (pcs t (peerConnection (snd entry)))),
                       calls := calls t @ [CallClose (peerConnection (snd entry))]\<rparr>) xs s)
     = connections s \<and>
   participants (fold (\<lambda>entry t. t\<lparr>pcs := (pcs t)(peerConnection (snd entry) :=
                                   pc_close (pcs t (peerConnection (snd entry)))),
                       calls := calls t @ [CallClose (peerConnection (snd entry))]\<rparr>) xs s)
     = participants s \<and>
   (\<forall>r. pcClosed (pcs (fold (\<lambda>entry t. t\<lparr>pcs := (pcs t)(peerConnection (snd entry) :=
                                   pc_close (pcs t (peerConnection (snd entry)))),
                       calls := calls t @ [CallClose (peerConnection (snd entry))]\<rparr>) xs s) r)
        = (pcClosed (pcs s r) \<or> r \<in> (\<lambda>entry. peerConnection (snd entry)) ` set xs))"
  by (induction xs arbitrary: s) (auto simp: pc_close_def)

text \<open>
  Claim C10. When the update of the own participant document is accepted, \<open>leave\<close>
  completes; in the state it leaves, every peer connection that was held in the connection
  map is closed, both maps are empty, \<open>getParticipantCount\<close> is 0, \<open>getRemoteStreams\<close> is
  empty and \<open>isParticipantConnected\<close> is false for every id. In any state,
  \<open>isParticipantConnected\<close> is false for an id that has no entry.
\<close>

theorem leave_closes_everything:
  "\<exists>s'. leave True s = Inr s' \<and>
     (\<forall>entry \<in> set (connections s). pcClosed (pcs s' (peerConnection (snd entry)))) \<and>
     connections s' = [] \<and> participants s' = [] \<and>
     getParticipantCount s' = 0 \<and> getRemoteStreams s' = [] \<and>
     (\<forall>p. isParticipantConnected s' p = False) \<and>
     (map_of (connections s) q = None \<longrightarrow> isParticipantConnected s q = False)"
  using close_all_fold [of "connections s" "s\<lparr>written := written s @ [WroteParticipant (currentUserId s) False]\<rparr>"]
  by (auto simp: leave_def close_all_def Let_def getParticipantCount_def getRemoteStreams_def
      isParticipantConnected_def split: option.splits)

lemma distinct_refs_differ:
  assumes "distinct (map (\<lambda>e. g (snd e)) al)" "map_of al p = Some cp" "map_of al q = Some cq" "p \<noteq> q"
  shows "g cp \<noteq> g cq"
proof -
  from assms(2,3) have i: "(p, cp) \<in> set al" "(q, cq) \<in> set al" by (auto dest: map_of_SomeD)
  from assms(1) have "inj_on (\<lambda>e. g (snd e)) (set al)" by (simp add: distinct_map)
  from inj_onD [OF this _ i] assms(4) show ?thesis by auto
qed

text \<open>
  Claim C7, as amended. \<open>handleParticipantLeft p\<close>, in the mesh manager and in the simple
  manager: the entry of \<open>p\<close> is removed from both maps and its peer connection is closed
  (the one \<open>close\<close> call made); the entries of every other id are unchanged and their peer
  connections are untouched; the handler writes nothing to the signaling collections and
  cancels nothing: the subscriptions and the suspended methods stay. Afterwards a signaling
  routine entered for \<open>p\<close> does nothing (\<open>createOffer\<close> returns at once, the answer and
  candidate callbacks skip the record), the closed peer connection raises no candidate
  event, and a \<open>createOffer\<close> suspended at \<open>createOffer()\<close> or \<open>setLocalDescription\<close> of the
  closed connection writes nothing: its \<open>setLocalDescription\<close> is refused.
\<close>

theorem handleParticipantLeft_closes_only_that_link:
  assumes wf: "wf_connections s" and sd: "distinct (map snd (sm_connections m))"
  shows "map_of (connections (handleParticipantLeft p s)) p = None \<and>
         map_of (participants (handleParticipantLeft p s)) p = None \<and>
         (\<forall>c. map_of (connections s) p = Some c \<longrightarrow>
            pcClosed (pcs (handleParticipantLeft p s) (peerConnection c)) \<and>
            calls (handleParticipantLeft p s) = calls s @ [CallClose (peerConnection c)]) \<and>
         (map_of (connections s) p = None \<longrightarrow>
            calls (handleParticipantLeft p s) = calls s \<and> pcs (handleParticipantLeft p s) = pcs s) \<and>
         (\<forall>q. q \<noteq> p \<longrightarrow>
            map_of (connections (handleParticipantLeft p s)) q = map_of (connections s) q \<and>
            map_of (participants (handleParticipantLeft p s)) q = map_of (participants s) q \<and>
            (\<forall>c. map_of (connections s) q = Some c \<longrightarrow>
               pcs (handleParticipantLeft p s) (peerConnection c) = pcs s (peerConnection c))) \<and>
         written (handleParticipantLeft p s) = written s \<and>
         watchers (handleParticipantLeft p s) = watchers s \<and>
         suspended (handleParticipantLeft p s) = suspended s \<and>
         createOffer p (handleParticipantLeft p s) = handleParticipantLeft p s \<and>
         onAnswerSnapshot p docs (handleParticipantLeft p s) = handleParticipantLeft p s \<and>
         onCandidateChange p ch (handleParticipantLeft p s) = handleParticipantLeft p s \<and>
         (\<forall>c. map_of (connections s) p = Some c \<longrightarrow>
            deliver (IceCandidate (peerConnection c) cand) (handleParticipantLeft p s) = handleParticipantLeft p s) \<and>
         (\<forall>c offer. map_of (connections s) p = Some c \<longrightarrow>
            written (resume (AwaitCreateOffer p (peerConnection c) offer) (handleParticipantLeft p s))
              = written s \<and>
            watchers (resume (AwaitCreateOffer p (peerConnection c) offer) (handleParticipantLeft p s))
              = watchers s \<and>
            resume (AwaitSetLocalDescription p (peerConnection c) offer) (handleParticipantLeft p s) = handleParticipantLeft p s) \<and>
         map_of (sm_connections (Simple_handleParticipantLeft p m)) p = None \<and>
         map_of (sm_participants (Simple_handleParticipantLeft p m)) p = None \<and>
         (\<forall>r. map_of (sm_connections m) p = Some r \<longrightarrow>
            pcClosed (sm_pcs (Simple_handleParticipantLeft p m) r) \<and>
            sm_calls (Simple_handleParticipantLeft p m) = sm_calls m @ [CallClose r]) \<and>
         (map_of (sm_connections m) p = None \<longrightarrow>
            sm_calls (Simple_handleParticipantLeft p m) = sm_calls m \<and> sm_pcs (Simple_handleParticipantLeft p m) = sm_pcs m) \<and>
         (\<forall>q. q \<noteq> p \<longrightarrow>
            map_of (sm_connections (Simple_handleParticipantLeft p m)) q = map_of (sm_connections m) q \<and>
            map_of (sm_participants (Simple_handleParticipantLeft p m)) q = map_of (sm_participants m) q \<and>
            (\<forall>r. map_of (sm_connections m) q = Some r \<longrightarrow>
               sm_pcs (Simple_handleParticipantLeft p m) r = sm_pcs m r)) \<and>
         sm_written (Simple_handleParticipantLeft p m) = sm_written m \<and>
         Simple_createOffer p (Simple_handleParticipantLeft p m) = Simple_handleParticipantLeft p m \<and>
         (\<forall>r offer. map_of (sm_connections m) p = Some r \<longrightarrow>
            sm_written (Simple_resume (AwaitCreateOffer p r offer) (Simple_handleParticipantLeft p m))
              = sm_written m \<and>
            Simple_resume (AwaitSetLocalDescription p r offer) (Simple_handleParticipantLeft p m) = Simple_handleParticipantLeft p m)"
proof -
  have mesh_other: "pcs (handleParticipantLeft p s) (peerConnection c) = pcs s (peerConnection c)"
    if "q \<noteq> p" "map_of (connections s) q = Some c" for q c
  proof (cases "map_of (connections s) p")
    case None
    then show ?thesis by (simp add: handleParticipantLeft_def Let_def)
  next
    case (Some cp)
    from wf have "distinct (map (\<lambda>e. peerConnection (snd e)) (connections s))"
      by (simp add: wf_connections_def)
    from distinct_refs_differ [OF this Some that(2)] that(1)
    have "peerConnection cp \<noteq> peerConnection c" by auto
    with Some show ?thesis by (simp add: handleParticipantLeft_def Let_def)
  qed
  have simple_other: "sm_pcs (Simple_handleParticipantLeft p m) r = sm_pcs m r"
    if "q \<noteq> p" "map_of (sm_connections m) q = Some r" for q r
  proof (cases "map_of (sm_connections m) p")
    case None
    then show ?thesis by (simp add: Simple_handleParticipantLeft_def Let_def)
  next
    case (Some rp)
    from sd have "distinct (map (\<lambda>e. id (snd e)) (sm_connections m))" by simp
    from distinct_refs_differ [OF this Some that(2)] that(1)
    have "rp \<noteq> r" by auto
    with Some show ?thesis by (simp add: Simple_handleParticipantLeft_def Let_def)
  qed
  have gone: "map_of (connections (handleParticipantLeft p s)) p = None"
    by (simp add: handleParticipantLeft_connections delete_conv)
  have f1: "map_of (participants (handleParticipantLeft p s)) p = None"
    by (simp add: handleParticipantLeft_connections delete_conv)
  have f2: "(\<forall>c. map_of (connections s) p = Some c \<longrightarrow>
            pcClosed (pcs (handleParticipantLeft p s) (peerConnection c)) \<and>
            calls (handleParticipantLeft p s) = calls s @ [CallClose (peerConnection c)])"
    by (simp add: handleParticipantLeft_def Let_def pc_close_def)
  have f3: "(map_of (connections s) p = None \<longrightarrow>
            calls (handleParticipantLeft p s) = calls s \<and> pcs (handleParticipantLeft p s) = pcs s)"
    by (simp add: handleParticipantLeft_def Let_def)
  have f4: "(\<forall>q. q \<noteq> p \<longrightarrow>
            map_of (connections (handleParticipantLeft p s)) q = map_of (connections s) q \<and>
            map_of (participants (handleParticipantLeft p s)) q = map_of (participants s) q \<and>
            (\<forall>c. map_of (connections s) q = Some c \<longrightarrow>
               pcs (handleParticipantLeft p s) (peerConnection c) = pcs s (peerConnection c)))"
    using mesh_other by (simp add: handleParticipantLeft_connections delete_conv)
  have f5: "written (handleParticipantLeft p s) = written s"
    by (simp add: handleParticipantLeft_def Let_def split: option.splits)
  have f6: "watchers (handleParticipantLeft p s) = watchers s"
    by (simp add: handleParticipantLeft_def Let_def split: option.splits)
  have f7: "suspended (handleParticipantLeft p s) = suspended s"
    by (simp add: handleParticipantLeft_def Let_def split: option.splits)
  have f8: "createOffer p (handleParticipantLeft p s) = handleParticipantLeft p s"
    using gone by (simp add: createOffer_def)
  have f9: "onAnswerSnapshot p docs (handleParticipantLeft p s) = handleParticipantLeft p s"
    using gone by (simp add: onAnswerSnapshot_def split: list.splits)
  have f10: "onCandidateChange p ch (handleParticipantLeft p s) = handleParticipantLeft p s"
    using gone by (simp add: onCandidateChange_def)
  have f11: "(\<forall>c. map_of (connections s) p = Some c \<longrightarrow>
            deliver (IceCandidate (peerConnection c) cand) (handleParticipantLeft p s) = handleParticipantLeft p s)"
    by (simp add: handleParticipantLeft_def Let_def pc_close_def)
  have f12: "(\<forall>c offer. map_of (connections s) p = Some c \<longrightarrow>
            written (resume (AwaitCreateOffer p (peerConnection c) offer) (handleParticipantLeft p s))
              = written s \<and>
            watchers (resume (AwaitCreateOffer p (peerConnection c) offer) (handleParticipantLeft p s))
              = watchers s \<and>
            resume (AwaitSetLocalDescription p (peerConnection c) offer) (handleParticipantLeft p s) = handleParticipantLeft p s)"
    by (simp add: handleParticipantLeft_def Let_def pc_close_def pc_createOffer_def
        pc_setLocalDescription_def)
  have sgone: "map_of (sm_connections (Simple_handleParticipantLeft p m)) p = None"
    by (simp add: Simple_handleParticipantLeft_def Let_def delete_conv split: option.splits)
  have f14: "map_of (sm_participants (Simple_handleParticipantLeft p m)) p = None"
    by (simp add: Simple_handleParticipantLeft_def Let_def delete_conv split: option.splits)
  have f15: "(\<forall>r. map_of (sm_connections m) p = Some r \<longrightarrow>
            pcClosed (sm_pcs (Simple_handleParticipantLeft p m) r) \<and>
            sm_calls (Simple_handleParticipantLeft p m) = sm_calls m @ [CallClose r])"
    by (simp add: Simple_handleParticipantLeft_def Let_def pc_close_def)
  have f16: "(map_of (sm_connections m) p = None \<longrightarrow>
            sm_calls (Simple_handleParticipantLeft p m) = sm_calls m \<and> sm_pcs (Simple_handleParticipantLeft p m) = sm_pcs m)"
    by (simp add: Simple_handleParticipantLeft_def Let_def)
  have f17: "(\<forall>q. q \<noteq> p \<longrightarrow>
            map_of (sm_connections (Simple_handleParticipantLeft p m)) q = map_of (sm_connections m) q \<and>
            map_of (sm_participants (Simple_handleParticipantLeft p m)) q = map_of (sm_participants m) q \<and>
            (\<forall>r. map_of (sm_connections m) q = Some r \<longrightarrow>
               sm_pcs (Simple_handleParticipantLeft p m) r = sm_pcs m r))"
    using simple_other by (simp add: Simple_handleParticipantLeft_def Let_def delete_conv split: option.splits)
  have f18: "sm_written (Simple_handleParticipantLeft p m) = sm_written m"
    by (simp add: Simple_handleParticipantLeft_def Let_def split: option.splits)
  have f19: "Simple_createOffer p (Simple_handleParticipantLeft p m) = Simple_handleParticipantLeft p m"
    using sgone by (simp add: Simple_createOffer_def)
  have f20: "(\<forall>r offer. map_of (sm_connections m) p = Some r \<longrightarrow>
            sm_written (Simple_resume (AwaitCreateOffer p r offer) (Simple_handleParticipantLeft p m))
              = sm_written m \<and>
            Simple_resume (AwaitSetLocalDescription p r offer) (Simple_handleParticipantLeft p m) = Simple_handleParticipantLeft p m)"
    by (simp add: Simple_handleParticipantLeft_def Let_def pc_close_def pc_createOffer_def
        pc_setLocalDescription_def)
  show ?thesis
    by (intro conjI) (fact gone f1 f2 f3 f4 f5 f6 f7 f8 f9 f10 f11 f12 sgone f14 f15 f16 f17 f18 f19 f20)+
qed

text \<open>
  Claim C7 as stated fails in its last clause. Bob joins, Alice's \<open>createOffer\<close> runs up to
  the offer write, and Bob leaves: \<open>handleParticipantLeft\<close> closes the link and removes the
  entry, and nothing has been written for the pair yet. The suspended \<open>createOffer\<close> is not
  cancelled: when the rejected \<open>updateDoc\<close> arrives, the offer to Bob is written and the
  answer subscription for Bob is opened, after the link was closed.
\<close>

theorem offer_written_after_participant_left:
  "map_of (connections ex_left_during_offer) ''bob'' = None \<and>
   pcClosed (pcs ex_left_during_offer 0) \<and>
   written ex_left_during_offer = [WroteParticipant ''alice'' True] \<and>
   watchers ex_left_during_offer = [ParticipantsWatcher] \<and>
   written (deliver (Settled 0) ex_left_during_offer)
     = [WroteParticipant ''alice'' True, WroteOffer ''alice'' ''bob'' browser_offer] \<and>
   watchers (deliver (Settled 0) ex_left_during_offer)
     = [ParticipantsWatcher, AnswerWatcher ''bob'']"
  by (simp add: ex_left_during_offer_def session_state_def mesh_defs handleParticipantLeft_def
      pc_close_def Let_def)

text \<open>
  \<open>handleParticipantJoined\<close> does not look for an entry already held for the id: a second
  \<open>added\<close> change for the same document id replaces the entry, and the peer connection of the
  first is kept open and out of the map. \<open>handleParticipantLeft\<close> closes the second only; a
  candidate event of the first is still written to the candidates collection, for Bob.
\<close>

lemma replaced_connection_still_sends_candidates:
  "map_of (connections ex_added_twice) ''bob'' = None \<and>
   pcClosed (pcs ex_added_twice 1) \<and>
   \<not> pcClosed (pcs ex_added_twice 0) \<and>
   written (deliver (IceCandidate 0 (Some (cand_candidate ex_candidate))) ex_added_twice)
     = written ex_added_twice @ [WroteCandidate ''alice'' ''bob'' (cand_candidate ex_candidate)]"
  by (simp add: ex_added_twice_def session_state_def mesh_defs handleParticipantLeft_def
      pc_close_def onicecandidate_def sendIceCandidate_def Let_def)

subsection \<open>The theorems at concrete sessions\<close>

theorem handleParticipantLeft_closes_only_that_link_witness:
  "wf_connections ex_alice_two \<and> distinct (map snd (sm_connections ex_simple)) \<and>
   map_of (connections (handleParticipantLeft ''bob'' ex_alice_two)) ''bob'' = None \<and>
   map_of (participants (handleParticipantLeft ''bob'' ex_alice_two)) ''bob'' = None \<and>
   written (handleParticipantLeft ''bob'' ex_alice_two) = written ex_alice_two \<and>
   map_of (connections (handleParticipantLeft ''bob'' ex_alice_two)) ''carl''
     = map_of (connections ex_alice_two) ''carl'' \<and>
   map_of (sm_connections (Simple_handleParticipantLeft ''bob'' ex_simple)) ''bob'' = None \<and>
   map_of (sm_connections (Simple_handleParticipantLeft ''bob'' ex_simple)) ''carl''
     = map_of (sm_connections ex_simple) ''carl''"
proof -
  have h1: "wf_connections ex_alice_two"
    unfolding ex_alice_two_def by (rule wf_session_state)
  have h2: "distinct (map snd (sm_connections ex_simple))"
    by (simp add: ex_simple_def Simple_handleParticipantJoined_def Simple_createOffer_def
        pc_createOffer_def pc_setLocalDescription_def new_RTCPeerConnection_def Let_def)
  have n: "''carl'' \<noteq> ''bob''" by simp
  note T = handleParticipantLeft_closes_only_that_link [OF h1 h2, where p = "''bob''"
      and docs = "[]" and ch = "(added, ex_candidate)" and cand = None]
  from T have t1: "map_of (connections (handleParticipantLeft ''bob'' ex_alice_two)) ''bob'' = None"
    by (elim conjE)
  from T have t2: "map_of (participants (handleParticipantLeft ''bob'' ex_alice_two)) ''bob'' = None"
    by (elim conjE)
  from T have t3: "written (handleParticipantLeft ''bob'' ex_alice_two) = written ex_alice_two"
    by (elim conjE)
  from T have t4: "\<forall>q. q \<noteq> ''bob'' \<longrightarrow>
            map_of (connections (handleParticipantLeft ''bob'' ex_alice_two)) q = map_of (connections ex_alice_two) q \<and>
            map_of (participants (handleParticipantLeft ''bob'' ex_alice_two)) q = map_of (participants ex_alice_two) q \<and>
            (\<forall>c. map_of (connections ex_alice_two) q = Some c \<longrightarrow>
               pcs (handleParticipantLeft ''bob'' ex_alice_two) (peerConnection c) = pcs ex_alice_two (peerConnection c))"
    by (elim conjE)
  from T have t5: "map_of (sm_connections (Simple_handleParticipantLeft ''bob'' ex_simple)) ''bob'' = None"
    by (elim conjE)
  from T have t6: "\<forall>q. q \<noteq> ''bob'' \<longrightarrow>
            map_of (sm_connections (Simple_handleParticipantLeft ''bob'' ex_simple)) q = map_of (sm_connections ex_simple) q \<and>
            map_of (sm_participants (Simple_handleParticipantLeft ''bob'' ex_simple)) q = map_of (sm_participants ex_simple) q \<and>
            (\<forall>r. map_of (sm_connections ex_simple) q = Some r \<longrightarrow>
               sm_pcs (Simple_handleParticipantLeft ''bob'' ex_simple) r = sm_pcs ex_simple r)"
    by (elim conjE)
  from t4 [rule_format, OF n] have p1: "map_of (connections (handleParticipantLeft ''bob'' ex_alice_two)) ''carl''
     = map_of (connections ex_alice_two) ''carl''" by (rule conjunct1)
  from t6 [rule_format, OF n] have p3: "map_of (sm_connections (Simple_handleParticipantLeft ''bob'' ex_simple)) ''carl''
     = map_of (sm_connections ex_simple) ''carl''" by (rule conjunct1)
  from h1 h2 t1 t2 t3 p1 t5 p3 show ?thesis by (intro conjI)
qed

lemma ex_alice_two_connections:
  "connections ex_alice_two =
     [(''bob'', \<lparr>participantId = ''bob'', peerConnection = 0, remoteStream = 0,
                 isConnected = False, isInitiator = True\<rparr>),
      (''carl'', \<lparr>participantId = ''carl'', peerConnection = Suc 0, remoteStream = Suc 0,
                  isConnected = False, isInitiator = True\<rparr>)]"
  by (simp add: ex_alice_two_def session_state_def mesh_defs Let_def)

theorem leave_closes_everything_witness:
  "map_of (connections ex_alice_two) ''dave'' = None \<and>
   isParticipantConnected ex_alice_two ''dave'' = False \<and>
   getParticipantCount ex_alice_two = 2 \<and>
   (\<exists>s'. leave True ex_alice_two = Inr s' \<and> pcClosed (pcs s' 0) \<and> pcClosed (pcs s' (Suc 0)) \<and>
      connections s' = [] \<and> participants s' = [] \<and> getParticipantCount s' = 0 \<and>
      getRemoteStreams s' = [])"
proof -
  have h: "map_of (connections ex_alice_two) ''dave'' = None"
    by (simp add: ex_alice_two_connections)
  have n: "getParticipantCount ex_alice_two = 2"
    by (simp add: getParticipantCount_def ex_alice_two_connections)
  from leave_closes_everything [of ex_alice_two "''dave''"] obtain s' where
    A: "leave True ex_alice_two = Inr s' \<and>
       (\<forall>entry \<in> set (connections ex_alice_two). pcClosed (pcs s' (peerConnection (snd entry)))) \<and>
       connections s' = [] \<and> participants s' = [] \<and>
       getParticipantCount s' = 0 \<and> getRemoteStreams s' = [] \<and>
       (\<forall>p. isParticipantConnected s' p = False) \<and>
       (map_of (connections ex_alice_two) ''dave'' = None \<longrightarrow>
          isParticipantConnected ex_alice_two ''dave'' = False)" ..
  from A have l: "leave True ex_alice_two = Inr s'" by (elim conjE)
  from A have c: "\<forall>entry \<in> set (connections ex_alice_two).
      pcClosed (pcs s' (peerConnection (snd entry)))" by (elim conjE)
  from A have r1: "connections s' = []" by (elim conjE)
  from A have r2: "participants s' = []" by (elim conjE)
  from A have r3: "getParticipantCount s' = 0" by (elim conjE)
  from A have r4: "getRemoteStreams s' = []" by (elim conjE)
  note r = r1 r2 r3 r4
  from A have i: "map_of (connections ex_alice_two) ''dave'' = None \<longrightarrow>
            isParticipantConnected ex_alice_two ''dave'' = False" by (elim conjE)
  from c have c0: "pcClosed (pcs s' 0)" and c1: "pcClosed (pcs s' (Suc 0))"
    by (simp_all add: ex_alice_two_connections)
  from i h have "isParticipantConnected ex_alice_two ''dave'' = False" by simp
  with h n l c0 c1 r show ?thesis by (intro conjI exI [of _ s'])
qed

section \<open>Properties of the virtual space component\<close>

text \<open>
  Claim C8 fails on the code. With media and user ready, a mesh construction that succeeds
  and a simple construction that succeeds: the handles returned by \<open>createMeshRoom\<close> have
  no member \<open>getRemoteStreams\<close>, so the first \<open>updateRemoteStreams()\<close> raises inside the
  \<open>try\<close> and the simple construction is attempted although the mesh construction raised
  nothing; the simple handles have no member \<open>setOnStreamsChanged\<close>, so the inner \<open>try\<close>
  raises too. The only toast is the destructive one, and \<open>isInCall\<close> stays false.
\<close>

theorem startOrJoinCall_mesh_success_ends_in_call_failed:
  "startOrJoinCall True (Some ''alice'') None None initial_call_state =
     \<lparr>isInCall = False, meshHandlesRef = True, simpleHandlesRef = True,
      pollingInterval = False,
      toasts = [\<lparr>variant = Some ''destructive'', title = ''Call failed''\<rparr>],
      constructed = [MeshRoom, SimpleRoom]\<rparr>"
  by (simp add: startOrJoinCall_def mesh_attempt_def simple_attempt_def call_member_def
      MeshRoomHandles_members_def SimpleRoomHandles_members_def initial_call_state_def Let_def)

theorem startOrJoinCall_mesh_success_ends_in_call_failed_witness:
  "constructed (startOrJoinCall True (Some ''alice'') None None initial_call_state)
     = [MeshRoom, SimpleRoom] \<and>
   map title (toasts (startOrJoinCall True (Some ''alice'') None None initial_call_state))
     = [''Call failed''] \<and>
   \<not> isInCall (startOrJoinCall True (Some ''alice'') None None initial_call_state)"
  using startOrJoinCall_mesh_success_ends_in_call_failed by simp

text \<open>Whatever the two constructions do, neither success toast is shown.\<close>

lemma startOrJoinCall_never_joined:
  "\<lparr>variant = None, title = ''Joined meeting''\<rparr>
     \<notin> set (toasts (startOrJoinCall localStream u meshRaises simpleRaises initial_call_state)) \<and>
   \<lparr>variant = None, title = ''Joined meeting (Simple Mode)''\<rparr>
     \<notin> set (toasts (startOrJoinCall localStream u meshRaises simpleRaises initial_call_state))"
  by (cases meshRaises; cases simpleRaises)
     (simp_all add: startOrJoinCall_def mesh_attempt_def simple_attempt_def call_member_def
      MeshRoomHandles_members_def SimpleRoomHandles_members_def initial_call_state_def Let_def)

lemma layers_valid_no_collision:
  "layers_valid ls tx ty \<Longrightarrow>
   \<not> list_ex (\<lambda>layer. is_collision_layer layer \<and>
        (let i = ty * the (layer_width layer) + tx
         in 0 \<le> i \<and> i < int (length (the (layer_data layer))) \<and>
            the (layer_data layer) ! nat i \<noteq> 0)) ls"
  by (induction ls) (auto simp: Let_def split: if_splits)

lemma isPositionValid_no_collision: "isPositionValid m pos \<Longrightarrow> \<not> collides m pos"
  using layers_valid_no_collision [of "map_layers m" "tile_of (pos_x pos)" "tile_of (pos_y pos)"]
  by (simp add: isPositionValid_def collides_def)

lemma move_cases:
  assumes "in_bounds m prev" "move m key prev = Some new"
  shows "in_bounds m new \<and>
         (new = prev \<or>
          (pos_y new = pos_y prev \<and> one_step (map_width m * GRID_SIZE - 48) (pos_x prev) (pos_x new)) \<or>
          (pos_x new = pos_x prev \<and> one_step (map_height m * GRID_SIZE - 48) (pos_y prev) (pos_y new)))"
  using assms
  by (auto simp: move_def in_bounds_def one_step_def STEP_def GRID_SIZE_def Let_def max_def min_def
      split: if_splits)

text \<open>
  Claim C9, as amended. From a position within the map bounds, a key event either leaves
  the whole state as it is (no database write), or moves the avatar along exactly one axis
  by one grid step of 32 px, or by less when the clamp to 0 or to the map size minus 48
  cuts the step short (the new coordinate is then that bound); the new position is within
  the bounds, passes \<open>isPositionValid\<close>, so no collision layer holds a nonzero tile under the
  avatar's centre, and it is the one position written to the database (when a user is
  signed in).
\<close>

theorem handleKeyDown_moves_at_most_one_step:
  assumes "in_bounds m (avatar st)"
  shows "handleKeyDown m key st = st \<or>
         (((pos_y (avatar (handleKeyDown m key st)) = pos_y (avatar st) \<and>
            one_step (map_width m * GRID_SIZE - 48) (pos_x (avatar st))
              (pos_x (avatar (handleKeyDown m key st)))) \<or>
           (pos_x (avatar (handleKeyDown m key st)) = pos_x (avatar st) \<and>
            one_step (map_height m * GRID_SIZE - 48) (pos_y (avatar st))
              (pos_y (avatar (handleKeyDown m key st))))) \<and>
          in_bounds m (avatar (handleKeyDown m key st)) \<and>
          isPositionValid m (avatar (handleKeyDown m key st)) \<and>
          \<not> collides m (avatar (handleKeyDown m key st)) \<and>
          positionWrites (handleKeyDown m key st) =
            positionWrites st @
              (case signedIn st of None \<Rightarrow> []
               | Some uid \<Rightarrow> [(uid, avatar (handleKeyDown m key st))]))"
proof (cases "handleKeyDown m key st = st")
  case True
  then show ?thesis by simp
next
  case False
  then obtain new where mv: "move m key (avatar st) = Some new"
    and ne: "pos_x new \<noteq> pos_x (avatar st) \<or> pos_y new \<noteq> pos_y (avatar st)"
    and v: "isPositionValid m new"
    and r: "handleKeyDown m key st = updatePositionInDb new (st\<lparr>avatar := new\<rparr>)"
    by (auto simp: handleKeyDown_def split: if_splits option.splits)
  from r have a: "avatar (handleKeyDown m key st) = new"
    and w: "positionWrites (handleKeyDown m key st) =
            positionWrites st @ (case signedIn st of None \<Rightarrow> [] | Some uid \<Rightarrow> [(uid, new)])"
    by (simp_all add: updatePositionInDb_def split: option.splits)
  from ne have "new \<noteq> avatar st" by auto
  with move_cases [OF assms mv] v isPositionValid_no_collision [OF v] w
  show ?thesis unfolding a by simp
qed

theorem handleKeyDown_moves_at_most_one_step_witness:
  "in_bounds ex_map (avatar ex_space_state) \<and>
   handleKeyDown ex_map ''ArrowUp'' ex_space_state \<noteq> ex_space_state \<and>
   pos_x (avatar (handleKeyDown ex_map ''ArrowUp'' ex_space_state)) = pos_x (avatar ex_space_state) \<and>
   one_step (map_height ex_map * GRID_SIZE - 48) (pos_y (avatar ex_space_state))
     (pos_y (avatar (handleKeyDown ex_map ''ArrowUp'' ex_space_state))) \<and>
   in_bounds ex_map (avatar (handleKeyDown ex_map ''ArrowUp'' ex_space_state)) \<and>
   isPositionValid ex_map (avatar (handleKeyDown ex_map ''ArrowUp'' ex_space_state)) \<and>
   handleKeyDown ex_map ''ArrowLeft'' ex_space_state = ex_space_state"
proof -
  have h: "in_bounds ex_map (avatar ex_space_state)"
    by (simp add: in_bounds_def ex_map_def ex_space_state_def GRID_SIZE_def)
  have v: "isPositionValid ex_map \<lparr>pos_x = 320, pos_y = 288\<rparr>"
    by (simp add: isPositionValid_def ex_map_def tile_of_def GRID_SIZE_def is_collision_layer_def
        Let_def nth_append)
  have nv: "\<not> isPositionValid ex_map \<lparr>pos_x = 288, pos_y = 320\<rparr>"
    by (simp add: isPositionValid_def ex_map_def tile_of_def GRID_SIZE_def is_collision_layer_def
        Let_def nth_append)
  have a: "avatar (handleKeyDown ex_map ''ArrowUp'' ex_space_state) = \<lparr>pos_x = 320, pos_y = 288\<rparr>"
    using v by (simp add: handleKeyDown_def move_def ex_space_state_def updatePositionInDb_def
        STEP_def GRID_SIZE_def Let_def)
  have n: "handleKeyDown ex_map ''ArrowUp'' ex_space_state \<noteq> ex_space_state"
  proof
    assume "handleKeyDown ex_map ''ArrowUp'' ex_space_state = ex_space_state"
    then have "avatar (handleKeyDown ex_map ''ArrowUp'' ex_space_state) = avatar ex_space_state"
      by simp
    with a show False by (simp add: ex_space_state_def)
  qed
  have l: "handleKeyDown ex_map ''ArrowLeft'' ex_space_state = ex_space_state"
    using nv by (simp add: handleKeyDown_def move_def ex_space_state_def updatePositionInDb_def
        STEP_def GRID_SIZE_def Let_def)
  have y: "pos_y (avatar (handleKeyDown ex_map ''ArrowUp'' ex_space_state)) \<noteq> pos_y (avatar ex_space_state)"
    unfolding a by (simp add: ex_space_state_def)
  from handleKeyDown_moves_at_most_one_step [OF h, of "''ArrowUp''"] n y h l
  show ?thesis by (auto simp: one_step_def)
qed

text \<open>
  Claim C9 as stated fails: on a map 12 tiles wide, \<open>ArrowRight\<close> from the initial position
  (320, 320) is clamped to 12 * 32 - 48 = 336. The avatar moves by 16 px, half a grid step.
\<close>

theorem handleKeyDown_clamped_half_step:
  "in_bounds ex_map (avatar ex_space_state) \<and>
   pos_x (avatar (handleKeyDown ex_map ''ArrowRight'' ex_space_state))
     - pos_x (avatar ex_space_state) = 16 \<and>
   pos_y (avatar (handleKeyDown ex_map ''ArrowRight'' ex_space_state))
     = pos_y (avatar ex_space_state) \<and>
   GRID_SIZE = 32"
proof -
  have v: "isPositionValid ex_map \<lparr>pos_x = 336, pos_y = 320\<rparr>"
    by (simp add: isPositionValid_def ex_map_def tile_of_def GRID_SIZE_def is_collision_layer_def
        Let_def nth_append)
  have m: "map_width ex_map = 12" by (simp add: ex_map_def)
  from v m show ?thesis
    by (simp add: handleKeyDown_def move_def ex_space_state_def updatePositionInDb_def
        in_bounds_def ex_map_def STEP_def GRID_SIZE_def Let_def)
qed

end
